theory Spec2Isabelle
  imports Main "HOL-Library.Word"
begin

section \<open>Data model\<close>

text \<open>
  The keeper of the fundraising module (x/fundraising/keeper/auction.go) over the
  structures of its \<open>types\<close> package. The package itself is not part of the sources
  at hand: its structures are taken from the way the keeper builds and reads them
  (\<open>NewBaseAuction\<close>, \<open>NewBatchAuction\<close>, the getters and setters) and from the data
  model of the specification.

  \<^item> \<open>time.Time\<close> is an instant in UTC, counted in nanoseconds: an \<open>int\<close>.
  \<^item> \<open>sdk.Int\<close> is an unbounded integer (\<open>int\<close>); where the keeper tests \<open>IsNil\<close>
    it is an \<open>int option\<close>, \<open>None\<close> being the nil value.
  \<^item> \<open>sdk.Dec\<close> is a fixed-point decimal with 18 fractional digits: the \<open>int\<close>
    that holds the value times \<open>10 ^ 18\<close>.
  \<^item> \<open>uint64\<close> and \<open>uint32\<close> are words, whose arithmetic wraps.
  \<^item> an account address is the text of its canonical bech32 form.
\<close>

type_synonym time = int
type_synonym address = string
type_synonym dec = int

record coin =
  denom :: string
  amount :: int

datatype auction_type = AuctionTypeFixedPrice | AuctionTypeBatch

datatype auction_status =
  AuctionStatusStandBy
  | AuctionStatusStarted
  | AuctionStatusVesting
  | AuctionStatusFinished
  | AuctionStatusCancelled

record allowed_bidder =
  bidder :: string
  max_bid_amount :: "int option"

record vesting_schedule =
  vs_release_time :: time
  vs_weight :: dec

record base_auction =
  auction_id :: "64 word"
  auction_kind :: auction_type
  allowed_bidders :: "allowed_bidder list"
  auctioneer :: address
  selling_reserve_address :: address
  paying_reserve_address :: address
  start_price :: dec
  selling_coin :: coin
  paying_coin_denom :: string
  vesting_reserve_address :: address
  vesting_schedules :: "vesting_schedule list"
  remaining_selling_coin :: coin
  start_time :: time
  end_times :: "time list"
  status :: auction_status

text \<open>\<open>BatchAuction\<close> embeds a \<open>BaseAuction\<close> and adds four fields.\<close>

record batch_auction =
  base :: base_auction
  min_bid_price :: dec
  matched_price :: dec
  max_extended_round :: "32 word"
  extended_round_rate :: dec

text \<open>The interface \<open>AuctionI\<close> has the two implementations.\<close>

datatype auction = FixedPriceAuction base_auction | BatchAuction batch_auction

record vesting_queue =
  vq_auction_id :: "64 word"
  vq_release_time :: time
  vq_paying_coin :: coin
  vq_released :: bool

text \<open>
  \<open>MatchingInfo\<close>. The two Go maps are lists of entries: Go leaves the order in
  which \<open>range\<close> visits a map open, and the order of the list is the order of one run.
\<close>

record matching_info =
  mi_matched_len :: int
  mi_allocation_map :: "(string \<times> int) list"
  mi_refund_map :: "(string \<times> int) list"

text \<open>
  The errors the keeper returns. \<open>sdkerrors.Wrap\<close> adds a message to a registered
  error and keeps its identity; the model keeps the registered error.
\<close>

datatype error =
  ErrInvalidRequest
  | ErrNotFound
  | ErrUnauthorized
  | ErrInvalidAuctionStatus
  | ErrEmptyAllowedBidders
  | ErrInvalidMaxBidAmount
  | ErrInsufficientFunds
  | ErrInvalidAddress
  | ErrTypeAssertion

text \<open>
  What the keeper reads and writes through \<open>sdk.Context\<close>: the block time, the
  key-value store of the module (the id counter, the auctions, the vesting queues in
  the order of their keys, the last matched length of every auction, the parameter
  \<open>ExtendedPeriod\<close>) and the state \<open>'b\<close> of the bank module.
\<close>

record 'b sdk_context =
  block_time :: time
  last_auction_id :: "64 word"
  auctions :: "64 word \<rightharpoonup> auction"
  vesting_queues :: "vesting_queue list"
  last_matched_bids_len :: "64 word \<Rightarrow> int"
  extended_period :: "32 word"
  bank :: 'b

section \<open>The auction id counter\<close>

definition GetLastAuctionId :: "'b sdk_context \<Rightarrow> 64 word" where
  "GetLastAuctionId ctx = last_auction_id ctx"

definition SetAuctionId :: "'b sdk_context \<Rightarrow> 64 word \<Rightarrow> 'b sdk_context" where
  "SetAuctionId ctx i = ctx\<lparr>last_auction_id := i\<rparr>"

text \<open>\<open>GetNextAuctionIdWithUpdate\<close>: the id returned and the context with the counter set.\<close>

definition GetNextAuctionIdWithUpdate :: "'b sdk_context \<Rightarrow> 64 word \<times> 'b sdk_context" where
  "GetNextAuctionIdWithUpdate ctx =
     (let i = GetLastAuctionId ctx + 1 in (i, SetAuctionId ctx i))"

text \<open>The ids of \<open>n\<close> calls in a row, in the order of the calls.\<close>

fun allocate_ids :: "nat \<Rightarrow> 'b sdk_context \<Rightarrow> 64 word list \<times> 'b sdk_context" where
  "allocate_ids 0 ctx = ([], ctx)"
| "allocate_ids (Suc n) ctx =
     (case GetNextAuctionIdWithUpdate ctx of
        (i, ctx') \<Rightarrow> (case allocate_ids n ctx' of (is, ctx'') \<Rightarrow> (i # is, ctx'')))"

section \<open>Coins and decimals of the SDK\<close>

text \<open>
  \<open>sdk.NewCoin\<close> builds a coin; it panics on a negative amount, which the keeper's
  calls below do not pass when the bank reports balances that are not negative and the
  matching gives amounts that are not negative.
\<close>

definition NewCoin :: "string \<Rightarrow> int \<Rightarrow> coin" where
  "NewCoin d a = \<lparr>denom = d, amount = a\<rparr>"

text \<open>
  \<open>sdk.NewCoins\<close> drops the coins of amount zero (and sorts by denomination; the
  keeper always passes a single coin).
\<close>

definition NewCoins :: "coin list \<Rightarrow> coin list" where
  "NewCoins cs = filter (\<lambda>c. amount c \<noteq> 0) cs"

text \<open>\<open>Coins.AmountOf\<close>: the amount held in a denomination, zero when it is absent.\<close>

definition AmountOf :: "coin list \<Rightarrow> string \<Rightarrow> int" where
  "AmountOf cs d = (case find (\<lambda>c. denom c = d) cs of None \<Rightarrow> 0 | Some c \<Rightarrow> amount c)"

definition precision :: int where
  "precision = 10 ^ 18"

definition NewDec :: "int \<Rightarrow> dec" where
  "NewDec i = i * precision"

definition OneDec :: dec where
  "OneDec = precision"

definition ZeroDec :: dec where
  "ZeroDec = 0"

text \<open>\<open>big.Int.Quo\<close> truncates towards zero.\<close>

definition trunc_quo :: "int \<Rightarrow> int \<Rightarrow> int" where
  "trunc_quo a b = sgn a * sgn b * (\<bar>a\<bar> div \<bar>b\<bar>)"

text \<open>\<open>chopPrecisionAndRound\<close>: drop 18 digits, rounding half to even.\<close>

definition chop_nonneg :: "int \<Rightarrow> int" where
  "chop_nonneg d =
     (let quo = d div precision; rem = d mod precision in
      if rem = 0 then quo
      else if rem < precision div 2 then quo
      else if rem > precision div 2 then quo + 1
      else if even quo then quo else quo + 1)"

definition chopPrecisionAndRound :: "int \<Rightarrow> int" where
  "chopPrecisionAndRound d = (if d < 0 then - chop_nonneg (- d) else chop_nonneg d)"

text \<open>
  \<open>Dec.Quo\<close>. Go panics on a zero divisor; the keeper divides only after it has
  found the divisor different from zero.
\<close>

definition Quo :: "dec \<Rightarrow> dec \<Rightarrow> dec" where
  "Quo x y = chopPrecisionAndRound (trunc_quo (x * precision * precision) y)"

text \<open>
  \<open>Time.AddDate(0, 0, days)\<close> on an instant in UTC, where every day has 24 hours.
\<close>

definition nanoseconds_per_day :: int where
  "nanoseconds_per_day = 24 * 60 * 60 * 1000000000"

definition AddDate_days :: "time \<Rightarrow> int \<Rightarrow> time" where
  "AddDate_days t days = t + days * nanoseconds_per_day"

section \<open>Auctions and the store\<close>

definition NewBaseAuction ::
  "64 word \<Rightarrow> auction_type \<Rightarrow> allowed_bidder list \<Rightarrow> address \<Rightarrow> address \<Rightarrow> address
   \<Rightarrow> dec \<Rightarrow> coin \<Rightarrow> string \<Rightarrow> address \<Rightarrow> vesting_schedule list \<Rightarrow> coin \<Rightarrow> time
   \<Rightarrow> time list \<Rightarrow> auction_status \<Rightarrow> base_auction" where
  "NewBaseAuction i typ allowedBidders auctioneerAddr sellingReserveAddr payingReserveAddr
     startPrice sellingCoin payingCoinDenom vestingReserveAddr vestingSchedules
     remainingSellingCoin startTime endTimes st =
   \<lparr>auction_id = i, auction_kind = typ, allowed_bidders = allowedBidders,
    auctioneer = auctioneerAddr, selling_reserve_address = sellingReserveAddr,
    paying_reserve_address = payingReserveAddr, start_price = startPrice,
    selling_coin = sellingCoin, paying_coin_denom = payingCoinDenom,
    vesting_reserve_address = vestingReserveAddr, vesting_schedules = vestingSchedules,
    remaining_selling_coin = remainingSellingCoin, start_time = startTime,
    end_times = endTimes, status = st\<rparr>"

definition NewFixedPriceAuction :: "base_auction \<Rightarrow> auction" where
  "NewFixedPriceAuction ba = FixedPriceAuction ba"

definition NewBatchAuction :: "base_auction \<Rightarrow> dec \<Rightarrow> dec \<Rightarrow> 32 word \<Rightarrow> dec \<Rightarrow> batch_auction" where
  "NewBatchAuction ba minBidPrice matchedPrice maxExtendedRound extendedRoundRate =
   \<lparr>base = ba, min_bid_price = minBidPrice, matched_price = matchedPrice,
    max_extended_round = maxExtendedRound, extended_round_rate = extendedRoundRate\<rparr>"

text \<open>The getters of \<open>AuctionI\<close> read the base auction; the setters write it.\<close>

fun GetBase :: "auction \<Rightarrow> base_auction" where
  "GetBase (FixedPriceAuction b) = b"
| "GetBase (BatchAuction ba) = base ba"

fun map_base :: "(base_auction \<Rightarrow> base_auction) \<Rightarrow> auction \<Rightarrow> auction" where
  "map_base f (FixedPriceAuction b) = FixedPriceAuction (f b)"
| "map_base f (BatchAuction ba) = BatchAuction (ba\<lparr>base := f (base ba)\<rparr>)"

definition SetStatus :: "auction \<Rightarrow> auction_status \<Rightarrow> auction" where
  "SetStatus a st = map_base (\<lambda>b. b\<lparr>status := st\<rparr>) a"

definition SetRemainingSellingCoin :: "auction \<Rightarrow> coin \<Rightarrow> auction" where
  "SetRemainingSellingCoin a c = map_base (\<lambda>b. b\<lparr>remaining_selling_coin := c\<rparr>) a"

definition SetAllowedBidders :: "auction \<Rightarrow> allowed_bidder list \<Rightarrow> auction" where
  "SetAllowedBidders a bs = map_base (\<lambda>b. b\<lparr>allowed_bidders := bs\<rparr>) a"

definition SetEndTimes :: "batch_auction \<Rightarrow> time list \<Rightarrow> batch_auction" where
  "SetEndTimes ba ts = ba\<lparr>base := (base ba)\<lparr>end_times := ts\<rparr>\<rparr>"

text \<open>
  Modelled from the spec: \<open>GetAllowedBiddersMap\<close> of the \<open>types\<close> package is not among
  the sources. \<open>allowed_bidders\<close> is a mapping from the bidder to its
  \<open>max_bid_amount\<close>; a Go map built from the list keeps the last entry of a bidder.
\<close>

definition GetAllowedBiddersMap :: "auction \<Rightarrow> (string \<rightharpoonup> int option)" where
  "GetAllowedBiddersMap a =
     fold (\<lambda>ab m. m(bidder ab \<mapsto> max_bid_amount ab)) (allowed_bidders (GetBase a)) Map.empty"

text \<open>
  Modelled from the spec: \<open>SetMaxBidAmount\<close> of the \<open>types\<close> package is not among the
  sources. \<open>update_allowed_bidder\<close> "replaces its cap": the entries of the bidder get
  the new amount, the others stay.
\<close>

definition SetMaxBidAmount :: "auction \<Rightarrow> string \<Rightarrow> int option \<Rightarrow> auction" where
  "SetMaxBidAmount a b maxBidAmount =
     map_base (\<lambda>ba. ba\<lparr>allowed_bidders :=
        map (\<lambda>ab. if bidder ab = b then ab\<lparr>max_bid_amount := maxBidAmount\<rparr> else ab)
          (allowed_bidders ba)\<rparr>) a"

text \<open>
  Modelled from the spec: \<open>ShouldAuctionStarted\<close> of the \<open>types\<close> package is not among
  the sources. An auction is started "when \<open>block_time \<ge> start_time\<close>".
\<close>

definition ShouldAuctionStarted :: "base_auction \<Rightarrow> time \<Rightarrow> bool" where
  "ShouldAuctionStarted ba t = (start_time ba \<le> t)"

text \<open>
  Modelled from the spec: \<open>ShouldRelease\<close> of the \<open>types\<close> package is not among the
  sources. An entry is due "where \<open>release_time \<le> block_time\<close> and \<open>released = false\<close>".
\<close>

definition ShouldRelease :: "vesting_queue \<Rightarrow> time \<Rightarrow> bool" where
  "ShouldRelease vq t = (vq_release_time vq \<le> t \<and> \<not> vq_released vq)"

definition GetAuction :: "'b sdk_context \<Rightarrow> 64 word \<Rightarrow> auction option" where
  "GetAuction ctx i = auctions ctx i"

definition SetAuction :: "'b sdk_context \<Rightarrow> auction \<Rightarrow> 'b sdk_context" where
  "SetAuction ctx a = ctx\<lparr>auctions := (auctions ctx)(auction_id (GetBase a) \<mapsto> a)\<rparr>"

text \<open>
  Modelled from the spec: \<open>GetVestingQueuesByAuctionId\<close> and \<open>SetVestingQueue\<close> of the
  keeper's store are not among the sources. The entries are kept under the keys
  \<open>vesting/<auction_id>/<release_time>\<close>, one entry to a key, and the store iterates
  in the order of the keys: the list \<open>vesting_queues\<close> holds them in that order, a
  write replaces the entry of its key or puts a new entry in its place.
\<close>

definition vq_key_less :: "vesting_queue \<Rightarrow> vesting_queue \<Rightarrow> bool" where
  "vq_key_less v w =
     (vq_auction_id v < vq_auction_id w
      \<or> (vq_auction_id v = vq_auction_id w \<and> vq_release_time v < vq_release_time w))"

definition vq_same_key :: "vesting_queue \<Rightarrow> vesting_queue \<Rightarrow> bool" where
  "vq_same_key v w = (vq_auction_id v = vq_auction_id w \<and> vq_release_time v = vq_release_time w)"

fun store_vq :: "vesting_queue \<Rightarrow> vesting_queue list \<Rightarrow> vesting_queue list" where
  "store_vq v [] = [v]"
| "store_vq v (w # ws) =
     (if vq_same_key v w then v # ws
      else if vq_key_less v w then v # w # ws
      else w # store_vq v ws)"

definition SetVestingQueue :: "'b sdk_context \<Rightarrow> vesting_queue \<Rightarrow> 'b sdk_context" where
  "SetVestingQueue ctx vq = ctx\<lparr>vesting_queues := store_vq vq (vesting_queues ctx)\<rparr>"

definition GetVestingQueuesByAuctionId :: "'b sdk_context \<Rightarrow> 64 word \<Rightarrow> vesting_queue list" where
  "GetVestingQueuesByAuctionId ctx i = filter (\<lambda>vq. vq_auction_id vq = i) (vesting_queues ctx)"

definition GetLastMatchedBidsLen :: "'b sdk_context \<Rightarrow> 64 word \<Rightarrow> int" where
  "GetLastMatchedBidsLen ctx i = last_matched_bids_len ctx i"

section \<open>The keeper and what it calls\<close>

text \<open>
  The keeper holds the bank keeper of the SDK, whose three calls either fail or give
  the next state of the bank, and \<open>sdk.AccAddressFromBech32\<close>. The other fields are
  functions of this module that the keeper calls and that are not among the sources at
  hand; they are left open, with the types of their Go signatures:
  \<^item> \<open>ReserveCreationFee\<close> and \<open>ReserveSellingCoin\<close> are transfers through the bank;
  \<^item> the three reserve addresses are functions of the auction id;
  \<^item> \<open>ValidateAllowedBidders\<close> accepts or refuses a list against the selling amount;
  \<^item> \<open>CalculateBatchAllocation\<close> gives the matching and may write the auction and
    the store;
  \<^item> \<open>ApplyVestingSchedules\<close> fails or writes the auction and the store.
\<close>

record 'b keeper =
  SpendableCoins :: "'b \<Rightarrow> address \<Rightarrow> coin list"
  SendCoins :: "'b \<Rightarrow> address \<Rightarrow> address \<Rightarrow> coin list \<Rightarrow> error + 'b"
  InputOutputCoins ::
    "'b \<Rightarrow> (address \<times> coin list) list \<Rightarrow> (address \<times> coin list) list \<Rightarrow> error + 'b"
  AccAddressFromBech32 :: "string \<Rightarrow> error + address"
  ReserveCreationFee :: "'b \<Rightarrow> address \<Rightarrow> error + 'b"
  ReserveSellingCoin :: "'b \<Rightarrow> 64 word \<Rightarrow> address \<Rightarrow> coin \<Rightarrow> error + 'b"
  SellingReserveAddress :: "64 word \<Rightarrow> address"
  PayingReserveAddress :: "64 word \<Rightarrow> address"
  VestingReserveAddress :: "64 word \<Rightarrow> address"
  ValidateAllowedBidders :: "allowed_bidder list \<Rightarrow> int \<Rightarrow> error option"
  CalculateBatchAllocation ::
    "'b sdk_context \<Rightarrow> batch_auction \<Rightarrow> matching_info \<times> batch_auction \<times> 'b sdk_context"
  ApplyVestingSchedules ::
    "'b sdk_context \<Rightarrow> batch_auction \<Rightarrow> error + (batch_auction \<times> 'b sdk_context)"

text \<open>
  A Go function either returns or panics. \<open>Returns\<close> carries what it returns, its
  \<open>error\<close> result included; \<open>Panics\<close> is the panic that ends the block.
\<close>

datatype 'a outcome = is_returns: Returns (returned: 'a) | Panics (panic_value: error)

text \<open>\<open>if err := ...; err != nil { panic(err) }\<close>, then the rest.\<close>

definition panic_on_error :: "error + 'a \<Rightarrow> ('a \<Rightarrow> 'c outcome) \<Rightarrow> 'c outcome" where
  "panic_on_error r rest = (case r of Inl e \<Rightarrow> Panics e | Inr x \<Rightarrow> rest x)"

section \<open>Transfers out of the reserves\<close>

text \<open>\<open>ReleaseRemainingSellingCoin\<close>.\<close>

definition ReleaseRemainingSellingCoin ::
  "'b keeper \<Rightarrow> 'b sdk_context \<Rightarrow> auction \<Rightarrow> error + 'b sdk_context" where
  "ReleaseRemainingSellingCoin k ctx a =
     (let sellingReserveAddr = selling_reserve_address (GetBase a);
          sellingCoinDenom = denom (selling_coin (GetBase a));
          spendableCoins = SpendableCoins k (bank ctx) sellingReserveAddr;
          releaseAmt = AmountOf spendableCoins sellingCoinDenom;
          releaseCoins = NewCoins [NewCoin sellingCoinDenom releaseAmt]
      in case SendCoins k (bank ctx) sellingReserveAddr (auctioneer (GetBase a)) releaseCoins of
           Inl err \<Rightarrow> Inl err
         | Inr b \<Rightarrow> Inr (ctx\<lparr>bank := b\<rparr>))"

text \<open>
  The loop of \<open>RefundPayingCoin\<close> over \<open>RefundMap\<close>: the inputs and outputs collected
  so far are the last two arguments.
\<close>

fun refund_entries ::
  "'b keeper \<Rightarrow> address \<Rightarrow> string \<Rightarrow> (string \<times> int) list
   \<Rightarrow> (address \<times> coin list) list \<Rightarrow> (address \<times> coin list) list
   \<Rightarrow> error + ((address \<times> coin list) list \<times> (address \<times> coin list) list)" where
  "refund_entries k payingReserveAddr payingCoinDenom [] inputs outputs = Inr (inputs, outputs)"
| "refund_entries k payingReserveAddr payingCoinDenom ((bidderStr, refundAmt) # rest) inputs outputs =
     (if refundAmt = 0 then refund_entries k payingReserveAddr payingCoinDenom rest inputs outputs
      else case AccAddressFromBech32 k bidderStr of
             Inl err \<Rightarrow> Inl err
           | Inr bidderAddr \<Rightarrow>
               (let refundCoins = NewCoins [NewCoin payingCoinDenom refundAmt]
                in refund_entries k payingReserveAddr payingCoinDenom rest
                     (inputs @ [(payingReserveAddr, refundCoins)])
                     (outputs @ [(bidderAddr, refundCoins)])))"

definition RefundPayingCoin ::
  "'b keeper \<Rightarrow> 'b sdk_context \<Rightarrow> auction \<Rightarrow> matching_info \<Rightarrow> error + 'b sdk_context" where
  "RefundPayingCoin k ctx a mInfo =
     (let payingReserveAddr = paying_reserve_address (GetBase a);
          payingCoinDenom = paying_coin_denom (GetBase a)
      in case refund_entries k payingReserveAddr payingCoinDenom (mi_refund_map mInfo) [] [] of
           Inl err \<Rightarrow> Inl err
         | Inr (inputs, outputs) \<Rightarrow>
             (case InputOutputCoins k (bank ctx) inputs outputs of
                Inl err \<Rightarrow> Inl err
              | Inr b \<Rightarrow> Inr (ctx\<lparr>bank := b\<rparr>)))"

text \<open>
  The loop of \<open>AllocateSellingCoin\<close> over \<open>AllocationMap\<close>. The error of
  \<open>AccAddressFromBech32\<close> is dropped there; the address is then the empty one.
\<close>

fun allocation_entries ::
  "'b keeper \<Rightarrow> address \<Rightarrow> string \<Rightarrow> (string \<times> int) list
   \<Rightarrow> (address \<times> coin list) list \<Rightarrow> (address \<times> coin list) list
   \<Rightarrow> (address \<times> coin list) list \<times> (address \<times> coin list) list" where
  "allocation_entries k sellingReserveAddr sellingCoinDenom [] inputs outputs = (inputs, outputs)"
| "allocation_entries k sellingReserveAddr sellingCoinDenom ((bidderStr, allocAmt) # rest) inputs outputs =
     (if allocAmt = 0 then allocation_entries k sellingReserveAddr sellingCoinDenom rest inputs outputs
      else (let allocateCoins = NewCoins [NewCoin sellingCoinDenom allocAmt];
                bidderAddr = (case AccAddressFromBech32 k bidderStr of Inl _ \<Rightarrow> [] | Inr addr \<Rightarrow> addr)
            in allocation_entries k sellingReserveAddr sellingCoinDenom rest
                 (inputs @ [(sellingReserveAddr, allocateCoins)])
                 (outputs @ [(bidderAddr, allocateCoins)])))"

definition AllocateSellingCoin ::
  "'b keeper \<Rightarrow> 'b sdk_context \<Rightarrow> auction \<Rightarrow> matching_info \<Rightarrow> error + 'b sdk_context" where
  "AllocateSellingCoin k ctx a mInfo =
     (let sellingReserveAddr = selling_reserve_address (GetBase a);
          sellingCoinDenom = denom (selling_coin (GetBase a))
      in case allocation_entries k sellingReserveAddr sellingCoinDenom (mi_allocation_map mInfo) [] [] of
           (inputs, outputs) \<Rightarrow>
             (case InputOutputCoins k (bank ctx) inputs outputs of
                Inl err \<Rightarrow> Inl err
              | Inr b \<Rightarrow> Inr (ctx\<lparr>bank := b\<rparr>)))"

section \<open>The vesting releaser\<close>

text \<open>
  The loop of \<open>AllocateVestingPayingCoin\<close> over the entries read before it starts:
  \<open>vqsLen\<close>, the index \<open>i\<close>, the entries still to visit, the context and the
  auction. It gives the error returned (\<open>None\<close> is \<open>nil\<close>), the auction and the
  context as the loop leaves them.
\<close>

fun release_loop ::
  "'b keeper \<Rightarrow> nat \<Rightarrow> nat \<Rightarrow> vesting_queue list \<Rightarrow> 'b sdk_context \<Rightarrow> auction
   \<Rightarrow> error option \<times> auction \<times> 'b sdk_context" where
  "release_loop k vqsLen i [] ctx a = (None, a, ctx)"
| "release_loop k vqsLen i (vq # rest) ctx a =
     (if ShouldRelease vq (block_time ctx) then
        (let vestingReserveAddr = vesting_reserve_address (GetBase a);
             auctioneerAddr = auctioneer (GetBase a);
             payingCoins = NewCoins [vq_paying_coin vq]
         in case SendCoins k (bank ctx) vestingReserveAddr auctioneerAddr payingCoins of
              Inl err \<Rightarrow> (Some err, a, ctx)
            | Inr b \<Rightarrow>
                (let ctx1 = SetVestingQueue (ctx\<lparr>bank := b\<rparr>) (vq\<lparr>vq_released := True\<rparr>)
                 in if int i = int vqsLen - 1
                    then (let a1 = SetStatus a AuctionStatusFinished
                          in release_loop k vqsLen (Suc i) rest (SetAuction ctx1 a1) a1)
                    else release_loop k vqsLen (Suc i) rest ctx1 a))
      else release_loop k vqsLen (Suc i) rest ctx a)"

text \<open>
  The transfers of the specification's \<open>vesting_release\<close>, one tranche after the
  other: each is a \<open>SendCoins\<close> from the vesting reserve to the auctioneer, and the
  first failure ends them.
\<close>

fun transfer_tranches ::
  "'b keeper \<Rightarrow> 'b \<Rightarrow> address \<Rightarrow> address \<Rightarrow> coin list list \<Rightarrow> error + 'b" where
  "transfer_tranches k b fromAddr toAddr [] = Inr b"
| "transfer_tranches k b fromAddr toAddr (cs # rest) =
     (case SendCoins k b fromAddr toAddr cs of
        Inl err \<Rightarrow> Inl err
      | Inr b1 \<Rightarrow> transfer_tranches k b1 fromAddr toAddr rest)"

text \<open>\<open>AllocateVestingPayingCoin\<close>: it has no panic of its own.\<close>

definition AllocateVestingPayingCoin ::
  "'b keeper \<Rightarrow> 'b sdk_context \<Rightarrow> auction \<Rightarrow> (error option \<times> auction \<times> 'b sdk_context) outcome" where
  "AllocateVestingPayingCoin k ctx a =
     (let vqs = GetVestingQueuesByAuctionId ctx (auction_id (GetBase a));
          vqsLen = length vqs
      in Returns (release_loop k vqsLen 0 vqs ctx a))"

text \<open>
  Modelled from the spec: the end-of-block handler of the module, which calls
  \<open>AllocateVestingPayingCoin\<close>, is not among the sources. The releaser runs "on each
  block tick, for each auction in Vesting status", and "failure in a transfer is fatal to
  the block (panic upward)"; the finalization has "fatal error escalates to block
  rollback". An auction in another status is left as it is. The result is the auction and
  the context after the tick, or the panic.
\<close>

definition vesting_tick ::
  "'b keeper \<Rightarrow> 'b sdk_context \<Rightarrow> auction \<Rightarrow> (auction \<times> 'b sdk_context) outcome" where
  "vesting_tick k ctx a =
     (if status (GetBase a) = AuctionStatusVesting then
        (case AllocateVestingPayingCoin k ctx a of
           Panics e \<Rightarrow> Panics e
         | Returns r \<Rightarrow>
             (case fst r of
                Some err \<Rightarrow> Panics err
              | None \<Rightarrow> Returns (snd r)))
      else Returns (a, ctx))"

section \<open>Creating and cancelling an auction\<close>

record msg_create_fixed_price_auction =
  m_auctioneer :: address
  m_start_price :: dec
  m_selling_coin :: coin
  m_paying_coin_denom :: string
  m_vesting_schedules :: "vesting_schedule list"
  m_start_time :: time
  m_end_time :: time

record msg_create_batch_auction = msg_create_fixed_price_auction +
  m_min_bid_price :: dec
  m_max_extended_round :: "32 word"
  m_extended_round_rate :: dec

record msg_cancel_auction =
  c_auctioneer :: address
  c_auction_id :: "64 word"

text \<open>
  \<open>CreateFixedPriceAuction\<close>: the auction or the error, and the context as the call
  leaves it. The events it emits are not modelled.
\<close>

definition CreateFixedPriceAuction ::
  "'b keeper \<Rightarrow> 'b sdk_context \<Rightarrow> msg_create_fixed_price_auction
   \<Rightarrow> (error + auction) \<times> 'b sdk_context" where
  "CreateFixedPriceAuction k ctx msg =
     (if block_time ctx > m_end_time msg then (Inl ErrInvalidRequest, ctx)
      else case GetNextAuctionIdWithUpdate ctx of
        (nextId, ctx1) \<Rightarrow>
          (case ReserveCreationFee k (bank ctx1) (m_auctioneer msg) of
             Inl err \<Rightarrow> (Inl err, ctx1)
           | Inr b1 \<Rightarrow>
               (let ctx2 = ctx1\<lparr>bank := b1\<rparr>
                in case ReserveSellingCoin k (bank ctx2) nextId (m_auctioneer msg) (m_selling_coin msg) of
                     Inl err \<Rightarrow> (Inl err, ctx2)
                   | Inr b2 \<Rightarrow>
                       (let ctx3 = ctx2\<lparr>bank := b2\<rparr>;
                            allowedBidders = [];
                            endTimes = [m_end_time msg];
                            ba = NewBaseAuction nextId AuctionTypeFixedPrice allowedBidders
                                   (m_auctioneer msg)
                                   (SellingReserveAddress k nextId)
                                   (PayingReserveAddress k nextId)
                                   (m_start_price msg)
                                   (m_selling_coin msg)
                                   (m_paying_coin_denom msg)
                                   (VestingReserveAddress k nextId)
                                   (m_vesting_schedules msg)
                                   (m_selling_coin msg)
                                   (m_start_time msg)
                                   endTimes
                                   AuctionStatusStandBy;
                            ba1 = (if ShouldAuctionStarted ba (block_time ctx3)
                                   then ba\<lparr>status := AuctionStatusStarted\<rparr> else ba);
                            auction = NewFixedPriceAuction ba1
                        in (Inr auction, SetAuction ctx3 auction)))))"

text \<open>\<open>CreateBatchAuction\<close>.\<close>

definition CreateBatchAuction ::
  "'b keeper \<Rightarrow> 'b sdk_context \<Rightarrow> msg_create_batch_auction
   \<Rightarrow> (error + auction) \<times> 'b sdk_context" where
  "CreateBatchAuction k ctx msg =
     (if block_time ctx > m_end_time msg then (Inl ErrInvalidRequest, ctx)
      else case GetNextAuctionIdWithUpdate ctx of
        (nextId, ctx1) \<Rightarrow>
          (case ReserveCreationFee k (bank ctx1) (m_auctioneer msg) of
             Inl err \<Rightarrow> (Inl err, ctx1)
           | Inr b1 \<Rightarrow>
               (let ctx2 = ctx1\<lparr>bank := b1\<rparr>
                in case ReserveSellingCoin k (bank ctx2) nextId (m_auctioneer msg) (m_selling_coin msg) of
                     Inl err \<Rightarrow> (Inl err, ctx2)
                   | Inr b2 \<Rightarrow>
                       (let ctx3 = ctx2\<lparr>bank := b2\<rparr>;
                            allowedBidders = [];
                            endTimes = [m_end_time msg];
                            baseAuction = NewBaseAuction nextId AuctionTypeBatch allowedBidders
                                   (m_auctioneer msg)
                                   (SellingReserveAddress k nextId)
                                   (PayingReserveAddress k nextId)
                                   (m_start_price msg)
                                   (m_selling_coin msg)
                                   (m_paying_coin_denom msg)
                                   (VestingReserveAddress k nextId)
                                   (m_vesting_schedules msg)
                                   (m_selling_coin msg)
                                   (m_start_time msg)
                                   endTimes
                                   AuctionStatusStandBy;
                            baseAuction1 = (if ShouldAuctionStarted baseAuction (block_time ctx3)
                                   then baseAuction\<lparr>status := AuctionStatusStarted\<rparr> else baseAuction);
                            auction = BatchAuction (NewBatchAuction baseAuction1
                                   (m_min_bid_price msg) ZeroDec
                                   (m_max_extended_round msg) (m_extended_round_rate msg))
                        in (Inr auction, SetAuction ctx3 auction)))))"

text \<open>\<open>CancelAuction\<close>: the error returned (\<open>None\<close> is \<open>nil\<close>) and the context.\<close>

definition CancelAuction ::
  "'b keeper \<Rightarrow> 'b sdk_context \<Rightarrow> msg_cancel_auction \<Rightarrow> error option \<times> 'b sdk_context" where
  "CancelAuction k ctx msg =
     (case GetAuction ctx (c_auction_id msg) of
        None \<Rightarrow> (Some ErrNotFound, ctx)
      | Some auction \<Rightarrow>
          if auctioneer (GetBase auction) \<noteq> c_auctioneer msg then (Some ErrUnauthorized, ctx)
          else if status (GetBase auction) \<noteq> AuctionStatusStandBy
          then (Some ErrInvalidAuctionStatus, ctx)
          else
            (let sellingReserveAddr = selling_reserve_address (GetBase auction);
                 sellingCoinDenom = denom (selling_coin (GetBase auction));
                 spendableCoins = SpendableCoins k (bank ctx) sellingReserveAddr;
                 releaseCoin = NewCoin sellingCoinDenom (AmountOf spendableCoins sellingCoinDenom)
             in case SendCoins k (bank ctx) sellingReserveAddr (auctioneer (GetBase auction))
                       (NewCoins [releaseCoin]) of
                  Inl err \<Rightarrow> (Some err, ctx)
                | Inr b \<Rightarrow>
                    (let auction1 = SetRemainingSellingCoin auction (NewCoin sellingCoinDenom 0);
                         auction2 = SetStatus auction1 AuctionStatusCancelled
                     in (None, SetAuction (ctx\<lparr>bank := b\<rparr>) auction2))))"

section \<open>Allowed bidders\<close>

definition AddAllowedBidders ::
  "'b keeper \<Rightarrow> 'b sdk_context \<Rightarrow> 64 word \<Rightarrow> allowed_bidder list \<Rightarrow> error option \<times> 'b sdk_context" where
  "AddAllowedBidders k ctx auctionId bidders =
     (case GetAuction ctx auctionId of
        None \<Rightarrow> (Some ErrNotFound, ctx)
      | Some auction \<Rightarrow>
          if length bidders = 0 then (Some ErrEmptyAllowedBidders, ctx)
          else (case ValidateAllowedBidders k bidders (amount (selling_coin (GetBase auction))) of
                  Some err \<Rightarrow> (Some err, ctx)
                | None \<Rightarrow>
                    (let allowedBidders = allowed_bidders (GetBase auction) @ bidders;
                         auction1 = SetAllowedBidders auction allowedBidders
                     in (None, SetAuction ctx auction1))))"

text \<open>
  \<open>UpdateAllowedBidder\<close>. \<open>IsPositive\<close> is asked only of an amount that is not nil.
  The keeper drops whatever \<open>SetMaxBidAmount\<close> returns.
\<close>

definition UpdateAllowedBidder ::
  "'b sdk_context \<Rightarrow> 64 word \<Rightarrow> address \<Rightarrow> int option \<Rightarrow> error option \<times> 'b sdk_context" where
  "UpdateAllowedBidder ctx auctionId bidderAddr maxBidAmount =
     (case GetAuction ctx auctionId of
        None \<Rightarrow> (Some ErrNotFound, ctx)
      | Some auction \<Rightarrow>
          (case maxBidAmount of
             None \<Rightarrow> (Some ErrInvalidMaxBidAmount, ctx)
           | Some m \<Rightarrow>
               if \<not> 0 < m then (Some ErrInvalidMaxBidAmount, ctx)
               else if GetAllowedBiddersMap auction bidderAddr = None then (Some ErrNotFound, ctx)
               else (let auction1 = SetMaxBidAmount auction bidderAddr maxBidAmount
                     in (None, SetAuction ctx auction1))))"

section \<open>Extending and finishing a batch auction\<close>

text \<open>\<open>ExtendRound\<close>: the auction and the context after it.\<close>

definition ExtendRound :: "'b sdk_context \<Rightarrow> batch_auction \<Rightarrow> batch_auction \<times> 'b sdk_context" where
  "ExtendRound ctx ba =
     (let extendedPeriod = AddDate_days (block_time ctx) (int (unat (extended_period ctx)));
          endTimes = end_times (base ba) @ [extendedPeriod];
          ba1 = SetEndTimes ba endTimes
      in (ba1, SetAuction ctx (BatchAuction ba1)))"

text \<open>
  \<open>FinishBatchAuction\<close>. The type assertion panics on an auction that is not a batch
  auction. \<open>uint32(len(...))\<close> keeps the low 32 bits of the length. After the block
  of the first \<open>if\<close> the function goes on with the statements below it.
\<close>

definition FinishBatchAuction ::
  "'b keeper \<Rightarrow> 'b sdk_context \<Rightarrow> auction \<Rightarrow> (batch_auction \<times> 'b sdk_context) outcome" where
  "FinishBatchAuction k ctx auction =
     (case auction of
        FixedPriceAuction _ \<Rightarrow> Panics ErrTypeAssertion
      | BatchAuction ba \<Rightarrow>
          panic_on_error
            (if max_extended_round ba + 1 = (of_nat (length (end_times (base ba))) :: 32 word) then
               (case CalculateBatchAllocation k ctx ba of
                  (mInfo, ba1, ctx1) \<Rightarrow>
                    (case AllocateSellingCoin k ctx1 (BatchAuction ba1) mInfo of
                       Inl err \<Rightarrow> Inl err
                     | Inr ctx2 \<Rightarrow>
                    (case ReleaseRemainingSellingCoin k ctx2 (BatchAuction ba1) of
                       Inl err \<Rightarrow> Inl err
                     | Inr ctx3 \<Rightarrow>
                    (case RefundPayingCoin k ctx3 (BatchAuction ba1) mInfo of
                       Inl err \<Rightarrow> Inl err
                     | Inr ctx4 \<Rightarrow> ApplyVestingSchedules k ctx4 ba1))))
             else Inr (ba, ctx))
            (\<lambda>(ba, ctx).
               (let lastMatchedLen = GetLastMatchedBidsLen ctx (auction_id (base ba))
                in if lastMatchedLen = 0 then
                     (case CalculateBatchAllocation k ctx ba of
                        (_, ba1, ctx1) \<Rightarrow> Returns (ExtendRound ctx1 ba1))
                   else
                     (case CalculateBatchAllocation k ctx ba of
                        (mInfo, ba1, ctx1) \<Rightarrow>
                          (let currDec = NewDec (mi_matched_len mInfo);
                               lastDec = NewDec lastMatchedLen;
                               diff = OneDec - Quo currDec lastDec
                           in if diff \<ge> extended_round_rate ba1 then Returns (ExtendRound ctx1 ba1)
                              else
                                panic_on_error (AllocateSellingCoin k ctx1 (BatchAuction ba1) mInfo) (\<lambda>ctx2.
                                panic_on_error (ReleaseRemainingSellingCoin k ctx2 (BatchAuction ba1)) (\<lambda>ctx3.
                                panic_on_error (RefundPayingCoin k ctx3 (BatchAuction ba1) mInfo) (\<lambda>ctx4.
                                panic_on_error (ApplyVestingSchedules k ctx4 ba1) Returns))))))))"

section \<open>A bank of balances, to run the keeper\<close>

text \<open>
  The theorems below hold for every bank and every choice of the functions left open.
  To run the keeper on inputs, this section gives one such choice: a bank that keeps a
  balance for an address and a denomination and refuses a transfer that the balance of
  the sender does not cover.
\<close>

type_synonym balances = "((address \<times> string) \<times> int) list"

definition balance_of :: "balances \<Rightarrow> address \<Rightarrow> string \<Rightarrow> int" where
  "balance_of b a d = (case map_of b (a, d) of None \<Rightarrow> 0 | Some n \<Rightarrow> n)"

definition set_balance :: "balances \<Rightarrow> address \<Rightarrow> string \<Rightarrow> int \<Rightarrow> balances" where
  "set_balance b a d n = ((a, d), n) # filter (\<lambda>e. fst e \<noteq> (a, d)) b"

fun debit :: "balances \<Rightarrow> address \<Rightarrow> coin list \<Rightarrow> error + balances" where
  "debit b a [] = Inr b"
| "debit b a (c # cs) =
     (if balance_of b a (denom c) < amount c then Inl ErrInsufficientFunds
      else debit (set_balance b a (denom c) (balance_of b a (denom c) - amount c)) a cs)"

fun credit :: "balances \<Rightarrow> address \<Rightarrow> coin list \<Rightarrow> balances" where
  "credit b a [] = b"
| "credit b a (c # cs) =
     credit (set_balance b a (denom c) (balance_of b a (denom c) + amount c)) a cs"

definition send_coins :: "balances \<Rightarrow> address \<Rightarrow> address \<Rightarrow> coin list \<Rightarrow> error + balances" where
  "send_coins b fromAddr toAddr cs =
     (case debit b fromAddr cs of Inl err \<Rightarrow> Inl err | Inr b1 \<Rightarrow> Inr (credit b1 toAddr cs))"

definition spendable_coins :: "balances \<Rightarrow> address \<Rightarrow> coin list" where
  "spendable_coins b a =
     map (\<lambda>e. NewCoin (snd (fst e)) (snd e)) (filter (\<lambda>e. fst (fst e) = a) b)"

fun debit_inputs :: "balances \<Rightarrow> (address \<times> coin list) list \<Rightarrow> error + balances" where
  "debit_inputs b [] = Inr b"
| "debit_inputs b ((a, cs) # rest) =
     (case debit b a cs of Inl err \<Rightarrow> Inl err | Inr b1 \<Rightarrow> debit_inputs b1 rest)"

fun credit_outputs :: "balances \<Rightarrow> (address \<times> coin list) list \<Rightarrow> balances" where
  "credit_outputs b [] = b"
| "credit_outputs b ((a, cs) # rest) = credit_outputs (credit b a cs) rest"

definition input_output_coins ::
  "balances \<Rightarrow> (address \<times> coin list) list \<Rightarrow> (address \<times> coin list) list \<Rightarrow> error + balances" where
  "input_output_coins b inputs outputs =
     (case debit_inputs b inputs of Inl err \<Rightarrow> Inl err | Inr b1 \<Rightarrow> Inr (credit_outputs b1 outputs))"

text \<open>
  Modelled from the spec: \<open>ValidateAllowedBidders\<close> of the \<open>types\<close> package is not
  among the sources. It "validates each entry has a positive \<open>max_bid_amount\<close> not
  exceeding \<open>selling_coin.amount\<close>"; \<open>InvalidMaxBidAmount\<close> is "nil, zero, negative,
  or > inventory".
\<close>

definition validate_allowed_bidders :: "allowed_bidder list \<Rightarrow> int \<Rightarrow> error option" where
  "validate_allowed_bidders bidders maxAmount =
     (if list_ex (\<lambda>ab. case max_bid_amount ab of
                          None \<Rightarrow> True
                        | Some m \<Rightarrow> m \<le> 0 \<or> maxAmount < m) bidders
      then Some ErrInvalidMaxBidAmount else None)"

definition reserve_address :: "string \<Rightarrow> 64 word \<Rightarrow> address" where
  "reserve_address role i = role @ replicate (unat i) (CHR ''i'')"

definition empty_matching :: matching_info where
  "empty_matching = \<lparr>mi_matched_len = 0, mi_allocation_map = [], mi_refund_map = []\<rparr>"

text \<open>
  The keeper over that bank. The creation fee is one \<open>stake\<close>, paid to \<open>fees\<close>.
  The matching stands for an auction without bids; applying the vesting schedules
  stands for the change of status alone.
\<close>

definition ledger_keeper :: "balances keeper" where
  "ledger_keeper =
     \<lparr>SpendableCoins = spendable_coins,
      SendCoins = send_coins,
      InputOutputCoins = input_output_coins,
      AccAddressFromBech32 = Inr,
      ReserveCreationFee = (\<lambda>b a. send_coins b a ''fees'' [NewCoin ''stake'' 1]),
      ReserveSellingCoin = (\<lambda>b i a c. send_coins b a (reserve_address ''selling'' i) (NewCoins [c])),
      SellingReserveAddress = reserve_address ''selling'',
      PayingReserveAddress = reserve_address ''paying'',
      VestingReserveAddress = reserve_address ''vesting'',
      ValidateAllowedBidders = validate_allowed_bidders,
      CalculateBatchAllocation = (\<lambda>ctx ba. (empty_matching, ba, ctx)),
      ApplyVestingSchedules = (\<lambda>ctx ba.
         (let ba1 = ba\<lparr>base := (base ba)\<lparr>status := AuctionStatusVesting\<rparr>\<rparr>
          in Inr (ba1, SetAuction ctx (BatchAuction ba1))))\<rparr>"

text \<open>
  An auction of 100 \<open>atom\<close> by \<open>alice\<close>, with the id 1, one allowed bidder and one
  end time, and a context at the block time 100 that holds it; the same auction as a
  started batch auction without extended rounds, in a context at its end time.
\<close>

definition auction_one :: base_auction where
  "auction_one =
     NewBaseAuction 1 AuctionTypeFixedPrice [\<lparr>bidder = ''bob'', max_bid_amount = Some 50\<rparr>] ''alice''
       ''sellingi'' ''payingi'' (NewDec 1) (NewCoin ''atom'' 100) ''usd'' ''vestingi'' []
       (NewCoin ''atom'' 100) 500 [1000] AuctionStatusStandBy"

definition batch_one :: batch_auction where
  "batch_one =
     NewBatchAuction (auction_one\<lparr>auction_kind := AuctionTypeBatch, status := AuctionStatusStarted\<rparr>)
       (NewDec 1) ZeroDec 0 0"

definition ctx_one :: "balances sdk_context" where
  "ctx_one =
     \<lparr>block_time = 100, last_auction_id = 1,
      auctions = [1 \<mapsto> FixedPriceAuction auction_one],
      vesting_queues = [],
      last_matched_bids_len = (\<lambda>_. 0),
      extended_period = 1,
      bank = [((''sellingi'', ''atom''), 100), ((''alice'', ''stake''), 5), ((''alice'', ''atom''), 300)]\<rparr>"

definition ctx_batch :: "balances sdk_context" where
  "ctx_batch = ctx_one\<lparr>block_time := 1000, auctions := [1 \<mapsto> BatchAuction batch_one]\<rparr>"

text \<open>
  The auction 1 in the status \<open>Vesting\<close>, with two tranches, due at 50 and at 150;
  a third tranche belongs to the auction 2. The context takes the balance of the vesting
  reserve and the block time.
\<close>

definition auction_vesting :: auction where
  "auction_vesting = FixedPriceAuction (auction_one\<lparr>status := AuctionStatusVesting\<rparr>)"

definition tranche_a :: vesting_queue where
  "tranche_a = \<lparr>vq_auction_id = 1, vq_release_time = 50, vq_paying_coin = NewCoin ''usd'' 40,
                vq_released = False\<rparr>"

definition tranche_b :: vesting_queue where
  "tranche_b = \<lparr>vq_auction_id = 1, vq_release_time = 150, vq_paying_coin = NewCoin ''usd'' 60,
                vq_released = False\<rparr>"

definition tranche_c :: vesting_queue where
  "tranche_c = \<lparr>vq_auction_id = 2, vq_release_time = 10, vq_paying_coin = NewCoin ''usd'' 7,
                vq_released = False\<rparr>"

definition ctx_vesting :: "int \<Rightarrow> time \<Rightarrow> balances sdk_context" where
  "ctx_vesting reserve t =
     ctx_one\<lparr>block_time := t,
             auctions := [1 \<mapsto> auction_vesting],
             vesting_queues := [tranche_a, tranche_b, tranche_c],
             bank := [((''vestingi'', ''usd''), reserve)]\<rparr>"

text \<open>Messages of \<open>alice\<close> that create an auction with a given end time and selling coin.\<close>

definition create_msg :: "time \<Rightarrow> coin \<Rightarrow> msg_create_fixed_price_auction" where
  "create_msg endTime sellingCoin =
     \<lparr>m_auctioneer = ''alice'', m_start_price = NewDec 1, m_selling_coin = sellingCoin,
      m_paying_coin_denom = ''usd'', m_vesting_schedules = [], m_start_time = 100,
      m_end_time = endTime\<rparr>"

definition create_batch_msg :: "time \<Rightarrow> coin \<Rightarrow> msg_create_batch_auction" where
  "create_batch_msg endTime sellingCoin =
     \<lparr>m_auctioneer = ''alice'', m_start_price = NewDec 1, m_selling_coin = sellingCoin,
      m_paying_coin_denom = ''usd'', m_vesting_schedules = [], m_start_time = 100,
      m_end_time = endTime, m_min_bid_price = NewDec 1, m_max_extended_round = 2,
      m_extended_round_rate = 0\<rparr>"

section \<open>Basic facts\<close>

lemma GetBase_map_base [simp]: "GetBase (map_base f a) = f (GetBase a)"
  by (cases a) simp_all

lemma map_base_map_base [simp]: "map_base f (map_base g a) = map_base (\<lambda>b. f (g b)) a"
  by (cases a) simp_all

lemma map_base_ident: "f (GetBase a) = GetBase a \<Longrightarrow> map_base f a = a"
  by (cases a) simp_all

lemmas next_id_defs =
  GetNextAuctionIdWithUpdate_def GetLastAuctionId_def SetAuctionId_def Let_def

lemmas bank_defs =
  balance_of_def set_balance_def send_coins_def spendable_coins_def input_output_coins_def
  NewCoin_def NewCoins_def AmountOf_def

lemma replicate_two: "replicate 2 x = [x, x]"
  by (simp add: numeral_2_eq_2)

lemmas example_defs =
  ledger_keeper_def ctx_one_def auction_one_def batch_one_def NewBaseAuction_def
  NewBatchAuction_def reserve_address_def create_msg_def create_batch_msg_def
  empty_matching_def validate_allowed_bidders_def replicate_two

section \<open>The id counter\<close>

lemma map_upt_Suc_shift: "map f [0..<Suc n] = f 0 # map (\<lambda>k. f (Suc k)) [0..<n]"
proof -
  have "[0..<Suc n] = 0 # map Suc [0..<n]"
    by (simp only: map_Suc_upt upt_conv_Cons [of 0 "Suc n"] zero_less_Suc)
  then show ?thesis by (simp add: comp_def del: upt_Suc)
qed

lemma allocate_ids_Suc:
  "allocate_ids (Suc n) ctx =
     ((last_auction_id ctx + 1) # fst (allocate_ids n (ctx\<lparr>last_auction_id := last_auction_id ctx + 1\<rparr>)),
      snd (allocate_ids n (ctx\<lparr>last_auction_id := last_auction_id ctx + 1\<rparr>)))"
  by (simp add: next_id_defs split: prod.splits)

lemma allocate_ids_fst:
  "fst (allocate_ids n ctx) = map (\<lambda>k. last_auction_id ctx + of_nat (Suc k)) [0..<n]"
proof (induction n arbitrary: ctx)
  case 0
  show ?case by simp
next
  case (Suc n)
  show ?case
    unfolding allocate_ids_Suc fst_conv Suc.IH map_upt_Suc_shift [of _ n]
    by (simp add: add.assoc)
qed

lemma allocate_ids_counter:
  "last_auction_id (snd (allocate_ids n ctx)) = last_auction_id ctx + of_nat n"
proof (induction n arbitrary: ctx)
  case 0
  show ?case by simp
next
  case (Suc n)
  show ?case unfolding allocate_ids_Suc snd_conv Suc.IH by (simp add: add.assoc)
qed

lemma unat_add_small:
  "unat (w :: 64 word) + k < 2 ^ 64 \<Longrightarrow> unat (w + of_nat k) = unat w + k"
  by (simp add: unat_word_ariths unat_of_nat)

text \<open>
  C9. Every call to the allocator returns an id strictly greater than every id it
  returned before, so that no id is used twice. On the 64-bit counter this holds as long
  as the counter does not pass \<open>2 ^ 64 - 1\<close>: for \<open>n\<close> calls in a row from a counter
  \<open>c\<close> with \<open>c + n < 2 ^ 64\<close>, the ids come in strictly increasing order, each is
  greater than \<open>c\<close>, and the counter ends at \<open>c + n\<close>.
\<close>

theorem ids_strictly_increase:
  assumes "unat (last_auction_id ctx) + n < 2 ^ 64"
  shows "sorted_wrt (<) (fst (allocate_ids n ctx))
       \<and> (\<forall>i \<in> set (fst (allocate_ids n ctx)). last_auction_id ctx < i)
       \<and> unat (last_auction_id (snd (allocate_ids n ctx))) = unat (last_auction_id ctx) + n"
proof -
  have u: "unat (last_auction_id ctx + of_nat (Suc k)) = unat (last_auction_id ctx) + Suc k"
    if "k < n" for k
    using that assms by (intro unat_add_small) simp
  have "sorted_wrt (<) (map (\<lambda>k. last_auction_id ctx + of_nat (Suc k)) [0..<n])"
    unfolding sorted_wrt_map
    by (rule sorted_wrt_mono_rel [of _ "(<)"]) (auto simp: word_less_nat_alt u simp del: of_nat_Suc)
  moreover have "\<forall>i \<in> set (map (\<lambda>k. last_auction_id ctx + of_nat (Suc k)) [0..<n]).
      last_auction_id ctx < i"
    by (auto simp: word_less_nat_alt u simp del: of_nat_Suc)
  moreover have "unat (last_auction_id (snd (allocate_ids n ctx))) = unat (last_auction_id ctx) + n"
    unfolding allocate_ids_counter using assms by (rule unat_add_small)
  ultimately show ?thesis by (simp only: allocate_ids_fst)
qed

text \<open>Three calls from the counter 1.\<close>

theorem ids_strictly_increase_witness:
  "unat (last_auction_id ctx_one) + 3 < 2 ^ 64
   \<and> sorted_wrt (<) (fst (allocate_ids 3 ctx_one))
   \<and> last_auction_id ctx_one < hd (fst (allocate_ids 3 ctx_one))
   \<and> unat (last_auction_id (snd (allocate_ids 3 ctx_one))) = unat (last_auction_id ctx_one) + 3"
proof -
  have h: "unat (last_auction_id ctx_one) + 3 < 2 ^ 64"
    by (simp add: ctx_one_def)
  have "fst (allocate_ids 3 ctx_one) \<noteq> []"
    by (simp add: allocate_ids_fst)
  then have m: "hd (fst (allocate_ids 3 ctx_one)) \<in> set (fst (allocate_ids 3 ctx_one))"
    by (rule hd_in_set)
  from ids_strictly_increase [OF h] m h show ?thesis by blast
qed

text \<open>
  At the counter \<open>2 ^ 64 - 2\<close> the first call returns \<open>2 ^ 64 - 1\<close> and the second
  returns 0, which is smaller.
\<close>

theorem ids_wrap_counterexample:
  "fst (allocate_ids 2 (ctx_one\<lparr>last_auction_id := 18446744073709551614\<rparr>))
     = [18446744073709551615, 0]
   \<and> \<not> sorted_wrt (<) (fst (allocate_ids 2 (ctx_one\<lparr>last_auction_id := 18446744073709551614\<rparr>)))"
proof -
  have "allocate_ids 2 c = allocate_ids (Suc (Suc 0)) c" for c :: "balances sdk_context"
    by (simp only: numeral_2_eq_2)
  then show ?thesis by (simp add: next_id_defs)
qed

section \<open>Creating an auction\<close>

lemma create_fixed_fee_fails:
  assumes "block_time ctx \<le> m_end_time msg"
    and "ReserveCreationFee k (bank ctx) (m_auctioneer msg) = Inl e"
  shows "CreateFixedPriceAuction k ctx msg = (Inl e, ctx\<lparr>last_auction_id := last_auction_id ctx + 1\<rparr>)"
  using assms by (simp add: CreateFixedPriceAuction_def next_id_defs)

lemma create_fixed_escrow_fails:
  assumes "block_time ctx \<le> m_end_time msg"
    and "ReserveCreationFee k (bank ctx) (m_auctioneer msg) = Inr b1"
    and "ReserveSellingCoin k b1 (last_auction_id ctx + 1) (m_auctioneer msg) (m_selling_coin msg) = Inl e"
  shows "CreateFixedPriceAuction k ctx msg =
           (Inl e, ctx\<lparr>last_auction_id := last_auction_id ctx + 1, bank := b1\<rparr>)"
  using assms by (simp add: CreateFixedPriceAuction_def next_id_defs)

lemma create_batch_fee_fails:
  assumes "block_time ctx \<le> m_end_time msg"
    and "ReserveCreationFee k (bank ctx) (m_auctioneer msg) = Inl e"
  shows "CreateBatchAuction k ctx msg = (Inl e, ctx\<lparr>last_auction_id := last_auction_id ctx + 1\<rparr>)"
  using assms by (simp add: CreateBatchAuction_def next_id_defs)

lemma create_batch_escrow_fails:
  assumes "block_time ctx \<le> m_end_time msg"
    and "ReserveCreationFee k (bank ctx) (m_auctioneer msg) = Inr b1"
    and "ReserveSellingCoin k b1 (last_auction_id ctx + 1) (m_auctioneer msg) (m_selling_coin msg) = Inl e"
  shows "CreateBatchAuction k ctx msg =
           (Inl e, ctx\<lparr>last_auction_id := last_auction_id ctx + 1, bank := b1\<rparr>)"
  using assms by (simp add: CreateBatchAuction_def next_id_defs)

lemma create_fixed_succeeds:
  assumes "block_time ctx \<le> m_end_time msg"
    and "ReserveCreationFee k (bank ctx) (m_auctioneer msg) = Inr b1"
    and "ReserveSellingCoin k b1 (last_auction_id ctx + 1) (m_auctioneer msg) (m_selling_coin msg) = Inr b2"
  shows "\<exists>a. fst (CreateFixedPriceAuction k ctx msg) = Inr a
           \<and> end_times (GetBase a) = [m_end_time msg]
           \<and> GetAuction (snd (CreateFixedPriceAuction k ctx msg)) (last_auction_id ctx + 1) = Some a"
  using assms
  by (simp add: CreateFixedPriceAuction_def next_id_defs NewBaseAuction_def
        NewFixedPriceAuction_def SetAuction_def GetAuction_def)

lemma create_batch_succeeds:
  assumes "block_time ctx \<le> m_end_time msg"
    and "ReserveCreationFee k (bank ctx) (m_auctioneer msg) = Inr b1"
    and "ReserveSellingCoin k b1 (last_auction_id ctx + 1) (m_auctioneer msg) (m_selling_coin msg) = Inr b2"
  shows "\<exists>a. fst (CreateBatchAuction k ctx msg) = Inr a
           \<and> end_times (GetBase a) = [m_end_time msg]
           \<and> GetAuction (snd (CreateBatchAuction k ctx msg)) (last_auction_id ctx + 1) = Some a"
  using assms
  by (simp add: CreateBatchAuction_def next_id_defs NewBaseAuction_def
        NewBatchAuction_def SetAuction_def GetAuction_def)

text \<open>
  C2. For every create message, fixed-price or batch, and every block time, the
  create operation fails with \<open>InvalidRequest\<close> whenever \<open>end_time \<le> block_time\<close>.
  The keeper tests \<open>BlockTime().After(EndTime)\<close>, so this holds for
  \<open>end_time < block_time\<close>, where the context stays as it was. At
  \<open>end_time = block_time\<close> the request passes the test, and the auction is created
  and stored under the next id when the creation fee and the selling coin can be
  reserved.
\<close>

theorem create_rejects_end_time_before_block_time:
  "(m_end_time msg < block_time ctx \<longrightarrow>
      CreateFixedPriceAuction k ctx msg = (Inl ErrInvalidRequest, ctx))
   \<and> (m_end_time bmsg < block_time ctx \<longrightarrow>
      CreateBatchAuction k ctx bmsg = (Inl ErrInvalidRequest, ctx))
   \<and> (m_end_time msg = block_time ctx
        \<and> ReserveCreationFee k (bank ctx) (m_auctioneer msg) = Inr bf
        \<and> ReserveSellingCoin k bf (last_auction_id ctx + 1) (m_auctioneer msg) (m_selling_coin msg) = Inr be
      \<longrightarrow> (\<exists>a. fst (CreateFixedPriceAuction k ctx msg) = Inr a
             \<and> end_times (GetBase a) = [m_end_time msg]
             \<and> GetAuction (snd (CreateFixedPriceAuction k ctx msg)) (last_auction_id ctx + 1) = Some a))
   \<and> (m_end_time bmsg = block_time ctx
        \<and> ReserveCreationFee k (bank ctx) (m_auctioneer bmsg) = Inr bf'
        \<and> ReserveSellingCoin k bf' (last_auction_id ctx + 1) (m_auctioneer bmsg) (m_selling_coin bmsg) = Inr be'
      \<longrightarrow> (\<exists>a. fst (CreateBatchAuction k ctx bmsg) = Inr a
             \<and> end_times (GetBase a) = [m_end_time bmsg]
             \<and> GetAuction (snd (CreateBatchAuction k ctx bmsg)) (last_auction_id ctx + 1) = Some a))"
proof (intro conjI impI)
  show "CreateFixedPriceAuction k ctx msg = (Inl ErrInvalidRequest, ctx)"
    if "m_end_time msg < block_time ctx"
    using that by (simp add: CreateFixedPriceAuction_def)
  show "CreateBatchAuction k ctx bmsg = (Inl ErrInvalidRequest, ctx)"
    if "m_end_time bmsg < block_time ctx"
    using that by (simp add: CreateBatchAuction_def)
  show "\<exists>a. fst (CreateFixedPriceAuction k ctx msg) = Inr a
             \<and> end_times (GetBase a) = [m_end_time msg]
             \<and> GetAuction (snd (CreateFixedPriceAuction k ctx msg)) (last_auction_id ctx + 1) = Some a"
    if "m_end_time msg = block_time ctx
        \<and> ReserveCreationFee k (bank ctx) (m_auctioneer msg) = Inr bf
        \<and> ReserveSellingCoin k bf (last_auction_id ctx + 1) (m_auctioneer msg) (m_selling_coin msg) = Inr be"
    using that by (intro create_fixed_succeeds [of ctx msg k bf be]) simp_all
  show "\<exists>a. fst (CreateBatchAuction k ctx bmsg) = Inr a
             \<and> end_times (GetBase a) = [m_end_time bmsg]
             \<and> GetAuction (snd (CreateBatchAuction k ctx bmsg)) (last_auction_id ctx + 1) = Some a"
    if "m_end_time bmsg = block_time ctx
        \<and> ReserveCreationFee k (bank ctx) (m_auctioneer bmsg) = Inr bf'
        \<and> ReserveSellingCoin k bf' (last_auction_id ctx + 1) (m_auctioneer bmsg) (m_selling_coin bmsg) = Inr be'"
    using that by (intro create_batch_succeeds [of ctx bmsg k bf' be']) simp_all
qed

text \<open>
  At the block time 100: messages with the end time 99 are refused, messages with the
  end time 100 create the auction 2.
\<close>

theorem create_rejects_end_time_before_block_time_witness:
  "(m_end_time (create_msg 99 (NewCoin ''atom'' 10)) < block_time ctx_one
      \<and> CreateFixedPriceAuction ledger_keeper ctx_one (create_msg 99 (NewCoin ''atom'' 10))
          = (Inl ErrInvalidRequest, ctx_one))
   \<and> (m_end_time (create_batch_msg 99 (NewCoin ''atom'' 10)) < block_time ctx_one
      \<and> CreateBatchAuction ledger_keeper ctx_one (create_batch_msg 99 (NewCoin ''atom'' 10))
          = (Inl ErrInvalidRequest, ctx_one))
   \<and> (m_end_time (create_msg 100 (NewCoin ''atom'' 10)) = block_time ctx_one
      \<and> (\<exists>a. fst (CreateFixedPriceAuction ledger_keeper ctx_one (create_msg 100 (NewCoin ''atom'' 10))) = Inr a
             \<and> end_times (GetBase a) = [m_end_time (create_msg 100 (NewCoin ''atom'' 10))]
             \<and> GetAuction (snd (CreateFixedPriceAuction ledger_keeper ctx_one
                                   (create_msg 100 (NewCoin ''atom'' 10))))
                  (last_auction_id ctx_one + 1) = Some a))
   \<and> (m_end_time (create_batch_msg 100 (NewCoin ''atom'' 10)) = block_time ctx_one
      \<and> (\<exists>a. fst (CreateBatchAuction ledger_keeper ctx_one (create_batch_msg 100 (NewCoin ''atom'' 10))) = Inr a
             \<and> end_times (GetBase a) = [m_end_time (create_batch_msg 100 (NewCoin ''atom'' 10))]
             \<and> GetAuction (snd (CreateBatchAuction ledger_keeper ctx_one
                                   (create_batch_msg 100 (NewCoin ''atom'' 10))))
                  (last_auction_id ctx_one + 1) = Some a))"
proof -
  let ?b1 = "[((''fees'', ''stake''), 1), ((''alice'', ''stake''), 4),
              ((''sellingi'', ''atom''), 100), ((''alice'', ''atom''), 300)] :: balances"
  let ?b2 = "[((''sellingii'', ''atom''), 10), ((''alice'', ''atom''), 290),
              ((''fees'', ''stake''), 1), ((''alice'', ''stake''), 4),
              ((''sellingi'', ''atom''), 100)] :: balances"
  note t = create_rejects_end_time_before_block_time
    [where ctx = ctx_one and k = ledger_keeper and bf = ?b1 and be = ?b2 and bf' = ?b1 and be' = ?b2]
  have h1: "m_end_time (create_msg 99 (NewCoin ''atom'' 10)) < block_time ctx_one"
    by (simp add: create_msg_def ctx_one_def)
  have h2: "m_end_time (create_batch_msg 99 (NewCoin ''atom'' 10)) < block_time ctx_one"
    by (simp add: create_batch_msg_def ctx_one_def)
  have h3: "m_end_time (create_msg 100 (NewCoin ''atom'' 10)) = block_time ctx_one
        \<and> ReserveCreationFee ledger_keeper (bank ctx_one)
            (m_auctioneer (create_msg 100 (NewCoin ''atom'' 10))) = Inr ?b1
        \<and> ReserveSellingCoin ledger_keeper ?b1 (last_auction_id ctx_one + 1)
            (m_auctioneer (create_msg 100 (NewCoin ''atom'' 10)))
            (m_selling_coin (create_msg 100 (NewCoin ''atom'' 10))) = Inr ?b2"
    by (simp add: bank_defs example_defs)
  have h4: "m_end_time (create_batch_msg 100 (NewCoin ''atom'' 10)) = block_time ctx_one
        \<and> ReserveCreationFee ledger_keeper (bank ctx_one)
            (m_auctioneer (create_batch_msg 100 (NewCoin ''atom'' 10))) = Inr ?b1
        \<and> ReserveSellingCoin ledger_keeper ?b1 (last_auction_id ctx_one + 1)
            (m_auctioneer (create_batch_msg 100 (NewCoin ''atom'' 10)))
            (m_selling_coin (create_batch_msg 100 (NewCoin ''atom'' 10))) = Inr ?b2"
    by (simp add: bank_defs example_defs)
  from t [where msg = "create_msg 99 (NewCoin ''atom'' 10)"] h1
  have c1: "CreateFixedPriceAuction ledger_keeper ctx_one (create_msg 99 (NewCoin ''atom'' 10))
          = (Inl ErrInvalidRequest, ctx_one)"
    by blast
  from t [where bmsg = "create_batch_msg 99 (NewCoin ''atom'' 10)"] h2
  have c2: "CreateBatchAuction ledger_keeper ctx_one (create_batch_msg 99 (NewCoin ''atom'' 10))
          = (Inl ErrInvalidRequest, ctx_one)"
    by blast
  from t [where msg = "create_msg 100 (NewCoin ''atom'' 10)"] h3
  have c3: "\<exists>a. fst (CreateFixedPriceAuction ledger_keeper ctx_one (create_msg 100 (NewCoin ''atom'' 10))) = Inr a
             \<and> end_times (GetBase a) = [m_end_time (create_msg 100 (NewCoin ''atom'' 10))]
             \<and> GetAuction (snd (CreateFixedPriceAuction ledger_keeper ctx_one
                                   (create_msg 100 (NewCoin ''atom'' 10))))
                  (last_auction_id ctx_one + 1) = Some a"
    by blast
  from t [where bmsg = "create_batch_msg 100 (NewCoin ''atom'' 10)"] h4
  have c4: "\<exists>a. fst (CreateBatchAuction ledger_keeper ctx_one (create_batch_msg 100 (NewCoin ''atom'' 10))) = Inr a
             \<and> end_times (GetBase a) = [m_end_time (create_batch_msg 100 (NewCoin ''atom'' 10))]
             \<and> GetAuction (snd (CreateBatchAuction ledger_keeper ctx_one
                                   (create_batch_msg 100 (NewCoin ''atom'' 10))))
                  (last_auction_id ctx_one + 1) = Some a"
    by blast
  from h1 h2 h3 h4 c1 c2 c3 c4 show ?thesis by blast
qed

text \<open>
  With \<open>end_time = block_time = 100\<close> neither create operation fails with
  \<open>InvalidRequest\<close>: both return an auction.
\<close>

theorem create_at_block_time_counterexample:
  "m_end_time (create_msg 100 (NewCoin ''atom'' 10)) = block_time ctx_one
   \<and> fst (CreateFixedPriceAuction ledger_keeper ctx_one (create_msg 100 (NewCoin ''atom'' 10)))
       \<noteq> Inl ErrInvalidRequest
   \<and> \<not> isl (fst (CreateFixedPriceAuction ledger_keeper ctx_one (create_msg 100 (NewCoin ''atom'' 10))))
   \<and> m_end_time (create_batch_msg 100 (NewCoin ''atom'' 10)) = block_time ctx_one
   \<and> fst (CreateBatchAuction ledger_keeper ctx_one (create_batch_msg 100 (NewCoin ''atom'' 10)))
       \<noteq> Inl ErrInvalidRequest
   \<and> \<not> isl (fst (CreateBatchAuction ledger_keeper ctx_one (create_batch_msg 100 (NewCoin ''atom'' 10))))"
  by (simp add: CreateFixedPriceAuction_def CreateBatchAuction_def next_id_defs bank_defs example_defs)

lemma create_fixed_failure:
  assumes h: "block_time ctx \<le> m_end_time msg
      \<and> (ReserveCreationFee k (bank ctx) (m_auctioneer msg) = Inl e
          \<or> (\<exists>bf. ReserveCreationFee k (bank ctx) (m_auctioneer msg) = Inr bf
                \<and> ReserveSellingCoin k bf (last_auction_id ctx + 1) (m_auctioneer msg)
                     (m_selling_coin msg) = Inl e))"
  shows "\<exists>bf. CreateFixedPriceAuction k ctx msg =
           (Inl e, ctx\<lparr>last_auction_id := last_auction_id ctx + 1, bank := bf\<rparr>)"
proof -
  from h consider "ReserveCreationFee k (bank ctx) (m_auctioneer msg) = Inl e"
    | bf where "ReserveCreationFee k (bank ctx) (m_auctioneer msg) = Inr bf"
       "ReserveSellingCoin k bf (last_auction_id ctx + 1) (m_auctioneer msg)
                     (m_selling_coin msg) = Inl e"
    by blast
  then show ?thesis
  proof cases
    case 1
    from create_fixed_fee_fails [OF _ 1] h
    have "CreateFixedPriceAuction k ctx msg =
           (Inl e, ctx\<lparr>last_auction_id := last_auction_id ctx + 1, bank := bank ctx\<rparr>)"
      by simp
    then show ?thesis ..
  next
    case 2
    from create_fixed_escrow_fails [OF _ 2] h show ?thesis by blast
  qed
qed

lemma create_batch_failure:
  assumes h: "block_time ctx \<le> m_end_time msg
      \<and> (ReserveCreationFee k (bank ctx) (m_auctioneer msg) = Inl e
          \<or> (\<exists>bf. ReserveCreationFee k (bank ctx) (m_auctioneer msg) = Inr bf
                \<and> ReserveSellingCoin k bf (last_auction_id ctx + 1) (m_auctioneer msg)
                     (m_selling_coin msg) = Inl e))"
  shows "\<exists>bf. CreateBatchAuction k ctx msg =
           (Inl e, ctx\<lparr>last_auction_id := last_auction_id ctx + 1, bank := bf\<rparr>)"
proof -
  from h consider "ReserveCreationFee k (bank ctx) (m_auctioneer msg) = Inl e"
    | bf where "ReserveCreationFee k (bank ctx) (m_auctioneer msg) = Inr bf"
       "ReserveSellingCoin k bf (last_auction_id ctx + 1) (m_auctioneer msg)
                     (m_selling_coin msg) = Inl e"
    by blast
  then show ?thesis
  proof cases
    case 1
    from create_batch_fee_fails [OF _ 1] h
    have "CreateBatchAuction k ctx msg =
           (Inl e, ctx\<lparr>last_auction_id := last_auction_id ctx + 1, bank := bank ctx\<rparr>)"
      by simp
    then show ?thesis ..
  next
    case 2
    from create_batch_escrow_fails [OF _ 2] h show ?thesis by blast
  qed
qed

lemma allocate_ids_snd:
  "snd (allocate_ids n ctx) = ctx\<lparr>last_auction_id := last_auction_id ctx + of_nat n\<rparr>"
proof (induction n arbitrary: ctx)
  case 0
  show ?case by simp
next
  case (Suc n)
  show ?case unfolding allocate_ids_Suc snd_conv Suc.IH by (simp add: add.assoc)
qed

text \<open>Before the counter has gone round, no draw returns the value the counter started from.\<close>

lemma counter_not_redrawn:
  assumes "n < 2 ^ 64"
  shows "last_auction_id ctx \<notin> set (fst (allocate_ids n ctx))"
proof
  assume "last_auction_id ctx \<in> set (fst (allocate_ids n ctx))"
  then obtain j where j: "j < n" "last_auction_id ctx = last_auction_id ctx + of_nat (Suc j)"
    unfolding allocate_ids_fst by (auto simp del: of_nat_Suc)
  from j(2) have "(of_nat (Suc j) :: 64 word) = 0" by (simp del: of_nat_Suc)
  then have "unat (of_nat (Suc j) :: 64 word) = 0" by (simp del: of_nat_Suc)
  moreover have "Suc j < 2 ^ 64" using j(1) assms by simp
  then have "unat (of_nat (Suc j) :: 64 word) = Suc j"
    by (simp add: unat_of_nat del: of_nat_Suc)
  ultimately show False by simp
qed

text \<open>
  C10. If \<open>CreateFixedPriceAuction\<close> or \<open>CreateBatchAuction\<close> fails in the
  reservation of the creation fee or in the escrow of the selling coin, the error is
  returned only after the counter of auction ids has been incremented and stored, so
  that the id drawn for the failed creation is consumed and never assigned to any
  auction.

  The call returns that error, the counter is one higher, no auction has been stored
  and the next id drawn is the one after the id of the failed creation. The id is not
  drawn again as far as the 64-bit counter goes: none of the next \<open>n\<close> draws, for every
  \<open>n < 2 ^ 64\<close>, returns it. Once the counter has gone round, the id is drawn again.
\<close>

theorem create_failure_consumes_id:
  "(block_time ctx \<le> m_end_time msg
      \<and> (ReserveCreationFee k (bank ctx) (m_auctioneer msg) = Inl e
          \<or> (\<exists>bf. ReserveCreationFee k (bank ctx) (m_auctioneer msg) = Inr bf
                \<and> ReserveSellingCoin k bf (last_auction_id ctx + 1) (m_auctioneer msg)
                     (m_selling_coin msg) = Inl e))
    \<longrightarrow> fst (CreateFixedPriceAuction k ctx msg) = Inl e
        \<and> last_auction_id (snd (CreateFixedPriceAuction k ctx msg)) = last_auction_id ctx + 1
        \<and> auctions (snd (CreateFixedPriceAuction k ctx msg)) = auctions ctx
        \<and> fst (GetNextAuctionIdWithUpdate (snd (CreateFixedPriceAuction k ctx msg)))
             = last_auction_id ctx + 2
        \<and> (\<forall>n. n < 2 ^ 64 \<longrightarrow>
              last_auction_id ctx + 1
                \<notin> set (fst (allocate_ids n (snd (CreateFixedPriceAuction k ctx msg))))))
   \<and> (block_time ctx \<le> m_end_time bmsg
      \<and> (ReserveCreationFee k (bank ctx) (m_auctioneer bmsg) = Inl e'
          \<or> (\<exists>bf. ReserveCreationFee k (bank ctx) (m_auctioneer bmsg) = Inr bf
                \<and> ReserveSellingCoin k bf (last_auction_id ctx + 1) (m_auctioneer bmsg)
                     (m_selling_coin bmsg) = Inl e'))
    \<longrightarrow> fst (CreateBatchAuction k ctx bmsg) = Inl e'
        \<and> last_auction_id (snd (CreateBatchAuction k ctx bmsg)) = last_auction_id ctx + 1
        \<and> auctions (snd (CreateBatchAuction k ctx bmsg)) = auctions ctx
        \<and> fst (GetNextAuctionIdWithUpdate (snd (CreateBatchAuction k ctx bmsg)))
             = last_auction_id ctx + 2
        \<and> (\<forall>n. n < 2 ^ 64 \<longrightarrow>
              last_auction_id ctx + 1
                \<notin> set (fst (allocate_ids n (snd (CreateBatchAuction k ctx bmsg))))))"
proof (rule conjI; rule impI)
  assume "block_time ctx \<le> m_end_time msg
      \<and> (ReserveCreationFee k (bank ctx) (m_auctioneer msg) = Inl e
          \<or> (\<exists>bf. ReserveCreationFee k (bank ctx) (m_auctioneer msg) = Inr bf
                \<and> ReserveSellingCoin k bf (last_auction_id ctx + 1) (m_auctioneer msg)
                     (m_selling_coin msg) = Inl e))"
  from create_fixed_failure [OF this] obtain bf where
    r: "CreateFixedPriceAuction k ctx msg =
           (Inl e, ctx\<lparr>last_auction_id := last_auction_id ctx + 1, bank := bf\<rparr>)" ..
  let ?c = "ctx\<lparr>last_auction_id := last_auction_id ctx + 1, bank := bf\<rparr>"
  have n: "\<forall>n. n < 2 ^ 64 \<longrightarrow> last_auction_id ctx + 1 \<notin> set (fst (allocate_ids n ?c))"
    using counter_not_redrawn [of _ ?c] by simp
  have "fst (Inl e :: error + auction, ?c) = Inl e
        \<and> last_auction_id (snd (Inl e :: error + auction, ?c)) = last_auction_id ctx + 1
        \<and> auctions (snd (Inl e :: error + auction, ?c)) = auctions ctx
        \<and> fst (GetNextAuctionIdWithUpdate (snd (Inl e :: error + auction, ?c)))
             = last_auction_id ctx + 2"
    by (simp add: next_id_defs)
  with n show "fst (CreateFixedPriceAuction k ctx msg) = Inl e
        \<and> last_auction_id (snd (CreateFixedPriceAuction k ctx msg)) = last_auction_id ctx + 1
        \<and> auctions (snd (CreateFixedPriceAuction k ctx msg)) = auctions ctx
        \<and> fst (GetNextAuctionIdWithUpdate (snd (CreateFixedPriceAuction k ctx msg)))
             = last_auction_id ctx + 2
        \<and> (\<forall>n. n < 2 ^ 64 \<longrightarrow>
              last_auction_id ctx + 1
                \<notin> set (fst (allocate_ids n (snd (CreateFixedPriceAuction k ctx msg)))))"
    unfolding r snd_conv by (simp only: simp_thms)
next
  assume "block_time ctx \<le> m_end_time bmsg
      \<and> (ReserveCreationFee k (bank ctx) (m_auctioneer bmsg) = Inl e'
          \<or> (\<exists>bf. ReserveCreationFee k (bank ctx) (m_auctioneer bmsg) = Inr bf
                \<and> ReserveSellingCoin k bf (last_auction_id ctx + 1) (m_auctioneer bmsg)
                     (m_selling_coin bmsg) = Inl e'))"
  from create_batch_failure [OF this] obtain bf where
    r: "CreateBatchAuction k ctx bmsg =
           (Inl e', ctx\<lparr>last_auction_id := last_auction_id ctx + 1, bank := bf\<rparr>)" ..
  let ?c = "ctx\<lparr>last_auction_id := last_auction_id ctx + 1, bank := bf\<rparr>"
  have n: "\<forall>n. n < 2 ^ 64 \<longrightarrow> last_auction_id ctx + 1 \<notin> set (fst (allocate_ids n ?c))"
    using counter_not_redrawn [of _ ?c] by simp
  have "fst (Inl e' :: error + auction, ?c) = Inl e'
        \<and> last_auction_id (snd (Inl e' :: error + auction, ?c)) = last_auction_id ctx + 1
        \<and> auctions (snd (Inl e' :: error + auction, ?c)) = auctions ctx
        \<and> fst (GetNextAuctionIdWithUpdate (snd (Inl e' :: error + auction, ?c)))
             = last_auction_id ctx + 2"
    by (simp add: next_id_defs)
  with n show "fst (CreateBatchAuction k ctx bmsg) = Inl e'
        \<and> last_auction_id (snd (CreateBatchAuction k ctx bmsg)) = last_auction_id ctx + 1
        \<and> auctions (snd (CreateBatchAuction k ctx bmsg)) = auctions ctx
        \<and> fst (GetNextAuctionIdWithUpdate (snd (CreateBatchAuction k ctx bmsg)))
             = last_auction_id ctx + 2
        \<and> (\<forall>n. n < 2 ^ 64 \<longrightarrow>
              last_auction_id ctx + 1
                \<notin> set (fst (allocate_ids n (snd (CreateBatchAuction k ctx bmsg)))))"
    unfolding r snd_conv by (simp only: simp_thms)
qed

text \<open>
  A fixed-price auction of 1000 \<open>atom\<close>, which \<open>alice\<close> does not hold: the fee is
  paid and the escrow fails. A batch auction created from an empty bank: the fee fails.
  In both cases the five draws that follow do not return the id of the failed creation.
\<close>

theorem create_failure_consumes_id_witness:
  "block_time ctx_one \<le> m_end_time (create_msg 200 (NewCoin ''atom'' 1000))
   \<and> fst (CreateFixedPriceAuction ledger_keeper ctx_one (create_msg 200 (NewCoin ''atom'' 1000)))
        = Inl ErrInsufficientFunds
   \<and> last_auction_id (snd (CreateFixedPriceAuction ledger_keeper ctx_one
                             (create_msg 200 (NewCoin ''atom'' 1000))))
        = last_auction_id ctx_one + 1
   \<and> auctions (snd (CreateFixedPriceAuction ledger_keeper ctx_one
                      (create_msg 200 (NewCoin ''atom'' 1000))))
        = auctions ctx_one
   \<and> fst (GetNextAuctionIdWithUpdate (snd (CreateFixedPriceAuction ledger_keeper ctx_one
                                             (create_msg 200 (NewCoin ''atom'' 1000)))))
        = last_auction_id ctx_one + 2
   \<and> last_auction_id ctx_one + 1
        \<notin> set (fst (allocate_ids 5 (snd (CreateFixedPriceAuction ledger_keeper ctx_one
                                            (create_msg 200 (NewCoin ''atom'' 1000))))))
   \<and> block_time (ctx_one\<lparr>bank := []\<rparr>) \<le> m_end_time (create_batch_msg 200 (NewCoin ''atom'' 10))
   \<and> fst (CreateBatchAuction ledger_keeper (ctx_one\<lparr>bank := []\<rparr>)
             (create_batch_msg 200 (NewCoin ''atom'' 10)))
        = Inl ErrInsufficientFunds
   \<and> last_auction_id (snd (CreateBatchAuction ledger_keeper (ctx_one\<lparr>bank := []\<rparr>)
                             (create_batch_msg 200 (NewCoin ''atom'' 10))))
        = last_auction_id (ctx_one\<lparr>bank := []\<rparr>) + 1
   \<and> auctions (snd (CreateBatchAuction ledger_keeper (ctx_one\<lparr>bank := []\<rparr>)
                      (create_batch_msg 200 (NewCoin ''atom'' 10))))
        = auctions (ctx_one\<lparr>bank := []\<rparr>)
   \<and> last_auction_id (ctx_one\<lparr>bank := []\<rparr>) + 1
        \<notin> set (fst (allocate_ids 5 (snd (CreateBatchAuction ledger_keeper (ctx_one\<lparr>bank := []\<rparr>)
                                            (create_batch_msg 200 (NewCoin ''atom'' 10))))))"
proof -
  have h1: "block_time ctx_one \<le> m_end_time (create_msg 200 (NewCoin ''atom'' 1000))
      \<and> (ReserveCreationFee ledger_keeper (bank ctx_one)
            (m_auctioneer (create_msg 200 (NewCoin ''atom'' 1000))) = Inl ErrInsufficientFunds
          \<or> (\<exists>bf. ReserveCreationFee ledger_keeper (bank ctx_one)
                     (m_auctioneer (create_msg 200 (NewCoin ''atom'' 1000))) = Inr bf
                \<and> ReserveSellingCoin ledger_keeper bf (last_auction_id ctx_one + 1)
                     (m_auctioneer (create_msg 200 (NewCoin ''atom'' 1000)))
                     (m_selling_coin (create_msg 200 (NewCoin ''atom'' 1000))) = Inl ErrInsufficientFunds))"
    by (simp add: bank_defs example_defs)
  have h2: "block_time (ctx_one\<lparr>bank := []\<rparr>) \<le> m_end_time (create_batch_msg 200 (NewCoin ''atom'' 10))
      \<and> (ReserveCreationFee ledger_keeper (bank (ctx_one\<lparr>bank := []\<rparr>))
            (m_auctioneer (create_batch_msg 200 (NewCoin ''atom'' 10))) = Inl ErrInsufficientFunds
          \<or> (\<exists>bf. ReserveCreationFee ledger_keeper (bank (ctx_one\<lparr>bank := []\<rparr>))
                     (m_auctioneer (create_batch_msg 200 (NewCoin ''atom'' 10))) = Inr bf
                \<and> ReserveSellingCoin ledger_keeper bf (last_auction_id (ctx_one\<lparr>bank := []\<rparr>) + 1)
                     (m_auctioneer (create_batch_msg 200 (NewCoin ''atom'' 10)))
                     (m_selling_coin (create_batch_msg 200 (NewCoin ''atom'' 10))) = Inl ErrInsufficientFunds))"
    by (simp add: bank_defs example_defs)
  have five: "(5::nat) < 2 ^ 64" by simp
  note c1 = create_failure_consumes_id
    [where ctx = ctx_one and k = ledger_keeper and e = ErrInsufficientFunds
       and msg = "create_msg 200 (NewCoin ''atom'' 1000)", THEN conjunct1, THEN mp, OF h1]
  note c2 = create_failure_consumes_id
    [where ctx = "ctx_one\<lparr>bank := []\<rparr>" and k = ledger_keeper and e' = ErrInsufficientFunds
       and bmsg = "create_batch_msg 200 (NewCoin ''atom'' 10)", THEN conjunct2, THEN mp, OF h2]
  note a1 = c1 [THEN conjunct1]
  note a2 = c1 [THEN conjunct2, THEN conjunct1]
  note a3 = c1 [THEN conjunct2, THEN conjunct2, THEN conjunct1]
  note a4 = c1 [THEN conjunct2, THEN conjunct2, THEN conjunct2, THEN conjunct1]
  note a5 = c1 [THEN conjunct2, THEN conjunct2, THEN conjunct2, THEN conjunct2, THEN spec, THEN mp, OF five]
  note b1 = c2 [THEN conjunct1]
  note b2 = c2 [THEN conjunct2, THEN conjunct1]
  note b3 = c2 [THEN conjunct2, THEN conjunct2, THEN conjunct1]
  note b5 = c2 [THEN conjunct2, THEN conjunct2, THEN conjunct2, THEN conjunct2, THEN spec, THEN mp, OF five]
  show ?thesis
    by (rule conjI [OF h1 [THEN conjunct1] conjI [OF a1 conjI [OF a2 conjI [OF a3 conjI [OF a4
          conjI [OF a5 conjI [OF h2 [THEN conjunct1] conjI [OF b1 conjI [OF b2 conjI [OF b3 b5]]]]]]]]]])
qed

text \<open>
  After the failed creation of the auction 2, the counter is drawn \<open>2 ^ 64 - 1\<close> times.
  The creation that follows gets the id 2 and stores its auction under it.
\<close>

theorem create_failed_id_reassigned_counterexample:
  "fst (CreateFixedPriceAuction ledger_keeper ctx_one (create_msg 200 (NewCoin ''atom'' 1000)))
     = Inl ErrInsufficientFunds
   \<and> fst (GetNextAuctionIdWithUpdate ctx_one) = 2
   \<and> \<not> isl (fst (CreateFixedPriceAuction ledger_keeper
               (snd (allocate_ids 18446744073709551615
                  (snd (CreateFixedPriceAuction ledger_keeper ctx_one
                          (create_msg 200 (NewCoin ''atom'' 1000))))))
               (create_msg 200 (NewCoin ''atom'' 10))))
   \<and> auction_id (GetBase (projr (fst (CreateFixedPriceAuction ledger_keeper
               (snd (allocate_ids 18446744073709551615
                  (snd (CreateFixedPriceAuction ledger_keeper ctx_one
                          (create_msg 200 (NewCoin ''atom'' 1000))))))
               (create_msg 200 (NewCoin ''atom'' 10)))))) = 2
   \<and> GetAuction (snd (CreateFixedPriceAuction ledger_keeper
               (snd (allocate_ids 18446744073709551615
                  (snd (CreateFixedPriceAuction ledger_keeper ctx_one
                          (create_msg 200 (NewCoin ''atom'' 1000))))))
               (create_msg 200 (NewCoin ''atom'' 10)))) 2
       = Some (projr (fst (CreateFixedPriceAuction ledger_keeper
               (snd (allocate_ids 18446744073709551615
                  (snd (CreateFixedPriceAuction ledger_keeper ctx_one
                          (create_msg 200 (NewCoin ''atom'' 1000))))))
               (create_msg 200 (NewCoin ''atom'' 10)))))"
  unfolding allocate_ids_snd
  by (simp add: CreateFixedPriceAuction_def next_id_defs bank_defs example_defs
      NewFixedPriceAuction_def SetAuction_def GetAuction_def)

section \<open>Cancelling an auction\<close>

text \<open>
  C5. \<open>CancelAuction\<close> succeeds only when the auction id exists (else \<open>NotFound\<close>),
  the caller equals the auctioneer (else \<open>Unauthorized\<close>) and the status is
  \<open>StandBy\<close> (else \<open>InvalidAuctionStatus\<close>); the three errors leave the context as
  it was. On success the whole balance that the selling reserve can spend in the selling
  denomination has been sent to the auctioneer, and the auction is stored with
  \<open>remaining_selling_coin\<close> zero and the status \<open>Cancelled\<close>, its other fields
  unchanged.
\<close>

theorem CancelAuction_checks_and_effect:
  "(GetAuction ctx (c_auction_id msg) = None \<longrightarrow>
      CancelAuction k ctx msg = (Some ErrNotFound, ctx))
   \<and> (\<forall>a. GetAuction ctx (c_auction_id msg) = Some a \<and> auctioneer (GetBase a) \<noteq> c_auctioneer msg \<longrightarrow>
      CancelAuction k ctx msg = (Some ErrUnauthorized, ctx))
   \<and> (\<forall>a. GetAuction ctx (c_auction_id msg) = Some a \<and> auctioneer (GetBase a) = c_auctioneer msg
          \<and> status (GetBase a) \<noteq> AuctionStatusStandBy \<longrightarrow>
      CancelAuction k ctx msg = (Some ErrInvalidAuctionStatus, ctx))
   \<and> (fst (CancelAuction k ctx msg) = None \<longrightarrow>
        (\<exists>a b. GetAuction ctx (c_auction_id msg) = Some a
           \<and> auctioneer (GetBase a) = c_auctioneer msg
           \<and> status (GetBase a) = AuctionStatusStandBy
           \<and> SendCoins k (bank ctx) (selling_reserve_address (GetBase a)) (auctioneer (GetBase a))
                (NewCoins [NewCoin (denom (selling_coin (GetBase a)))
                   (AmountOf (SpendableCoins k (bank ctx) (selling_reserve_address (GetBase a)))
                      (denom (selling_coin (GetBase a))))]) = Inr b
           \<and> bank (snd (CancelAuction k ctx msg)) = b
           \<and> GetAuction (snd (CancelAuction k ctx msg)) (auction_id (GetBase a)) =
                Some (map_base (\<lambda>ba. ba\<lparr>remaining_selling_coin :=
                                            NewCoin (denom (selling_coin (GetBase a))) 0,
                                         status := AuctionStatusCancelled\<rparr>) a)))"
  by (cases "GetAuction ctx (c_auction_id msg)")
     (auto simp: CancelAuction_def Let_def SetAuction_def GetAuction_def SetStatus_def
        SetRemainingSellingCoin_def split: sum.splits if_splits)

text \<open>
  The auction 1 of \<open>alice\<close>: an unknown id, a cancel by \<open>bob\<close>, a cancel after the
  start, and the cancel that succeeds.
\<close>

theorem CancelAuction_checks_and_effect_witness:
  "GetAuction ctx_one 7 = None
   \<and> CancelAuction ledger_keeper ctx_one \<lparr>c_auctioneer = ''alice'', c_auction_id = 7\<rparr>
       = (Some ErrNotFound, ctx_one)
   \<and> CancelAuction ledger_keeper ctx_one \<lparr>c_auctioneer = ''bob'', c_auction_id = 1\<rparr>
       = (Some ErrUnauthorized, ctx_one)
   \<and> CancelAuction ledger_keeper ctx_batch \<lparr>c_auctioneer = ''alice'', c_auction_id = 1\<rparr>
       = (Some ErrInvalidAuctionStatus, ctx_batch)
   \<and> fst (CancelAuction ledger_keeper ctx_one \<lparr>c_auctioneer = ''alice'', c_auction_id = 1\<rparr>) = None
   \<and> (\<exists>a b. GetAuction ctx_one 1 = Some a
         \<and> status (GetBase a) = AuctionStatusStandBy
         \<and> bank (snd (CancelAuction ledger_keeper ctx_one \<lparr>c_auctioneer = ''alice'', c_auction_id = 1\<rparr>)) = b
         \<and> GetAuction (snd (CancelAuction ledger_keeper ctx_one
                               \<lparr>c_auctioneer = ''alice'', c_auction_id = 1\<rparr>)) (auction_id (GetBase a)) =
              Some (map_base (\<lambda>ba. ba\<lparr>remaining_selling_coin :=
                                          NewCoin (denom (selling_coin (GetBase a))) 0,
                                       status := AuctionStatusCancelled\<rparr>) a))"
proof -
  have h1: "GetAuction ctx_one (c_auction_id \<lparr>c_auctioneer = ''alice'', c_auction_id = 7\<rparr>) = None"
    by (simp add: GetAuction_def ctx_one_def)
  have h2: "GetAuction ctx_one (c_auction_id \<lparr>c_auctioneer = ''bob'', c_auction_id = 1\<rparr>)
              = Some (FixedPriceAuction auction_one)
        \<and> auctioneer (GetBase (FixedPriceAuction auction_one))
            \<noteq> c_auctioneer \<lparr>c_auctioneer = ''bob'', c_auction_id = 1\<rparr>"
    by (simp add: GetAuction_def example_defs)
  have h3: "GetAuction ctx_batch (c_auction_id \<lparr>c_auctioneer = ''alice'', c_auction_id = 1\<rparr>)
              = Some (BatchAuction batch_one)
        \<and> auctioneer (GetBase (BatchAuction batch_one))
            = c_auctioneer \<lparr>c_auctioneer = ''alice'', c_auction_id = 1\<rparr>
        \<and> status (GetBase (BatchAuction batch_one)) \<noteq> AuctionStatusStandBy"
    by (simp add: GetAuction_def ctx_batch_def example_defs)
  have h4: "fst (CancelAuction ledger_keeper ctx_one \<lparr>c_auctioneer = ''alice'', c_auction_id = 1\<rparr>) = None"
    by (simp add: CancelAuction_def GetAuction_def Let_def bank_defs example_defs)
  note t = CancelAuction_checks_and_effect [where k = ledger_keeper]
  have c1: "CancelAuction ledger_keeper ctx_one \<lparr>c_auctioneer = ''alice'', c_auction_id = 7\<rparr>
       = (Some ErrNotFound, ctx_one)"
    using t [where ctx = ctx_one and msg = "\<lparr>c_auctioneer = ''alice'', c_auction_id = 7\<rparr>"] h1
    by blast
  have c2: "CancelAuction ledger_keeper ctx_one \<lparr>c_auctioneer = ''bob'', c_auction_id = 1\<rparr>
       = (Some ErrUnauthorized, ctx_one)"
    using t [where ctx = ctx_one and msg = "\<lparr>c_auctioneer = ''bob'', c_auction_id = 1\<rparr>"] h2
    by blast
  have c3: "CancelAuction ledger_keeper ctx_batch \<lparr>c_auctioneer = ''alice'', c_auction_id = 1\<rparr>
       = (Some ErrInvalidAuctionStatus, ctx_batch)"
    using t [where ctx = ctx_batch and msg = "\<lparr>c_auctioneer = ''alice'', c_auction_id = 1\<rparr>"] h3
    by blast
  have c4: "\<exists>a b. GetAuction ctx_one 1 = Some a
         \<and> status (GetBase a) = AuctionStatusStandBy
         \<and> bank (snd (CancelAuction ledger_keeper ctx_one \<lparr>c_auctioneer = ''alice'', c_auction_id = 1\<rparr>)) = b
         \<and> GetAuction (snd (CancelAuction ledger_keeper ctx_one
                               \<lparr>c_auctioneer = ''alice'', c_auction_id = 1\<rparr>)) (auction_id (GetBase a)) =
              Some (map_base (\<lambda>ba. ba\<lparr>remaining_selling_coin :=
                                          NewCoin (denom (selling_coin (GetBase a))) 0,
                                       status := AuctionStatusCancelled\<rparr>) a)"
    using t [where ctx = ctx_one and msg = "\<lparr>c_auctioneer = ''alice'', c_auction_id = 1\<rparr>",
        THEN conjunct2, THEN conjunct2, THEN conjunct2, rule_format, OF h4]
    by auto
  have h1': "GetAuction ctx_one 7 = None" using h1 by simp
  from h1' c1 c2 c3 h4 c4 show ?thesis by blast
qed

section \<open>Allowed bidders\<close>

text \<open>
  C7. For every existing auction, \<open>AddAllowedBidders\<close> rejects an empty list of
  bidders with \<open>EmptyAllowedBidders\<close> and leaves the context, and so the auction,
  unchanged; on success the stored auction differs from the previous one in
  \<open>allowed_bidders\<close> alone, which is the previous list followed by the supplied
  bidders in their order, with nothing removed.
\<close>

theorem AddAllowedBidders_appends:
  assumes "GetAuction ctx auctionId = Some a"
  shows "AddAllowedBidders k ctx auctionId [] = (Some ErrEmptyAllowedBidders, ctx)
       \<and> (fst (AddAllowedBidders k ctx auctionId bidders) = None \<longrightarrow>
             snd (AddAllowedBidders k ctx auctionId bidders)
               = SetAuction ctx (SetAllowedBidders a (allowed_bidders (GetBase a) @ bidders))
           \<and> (\<exists>a'. GetAuction (snd (AddAllowedBidders k ctx auctionId bidders)) (auction_id (GetBase a))
                      = Some a'
                 \<and> allowed_bidders (GetBase a') = allowed_bidders (GetBase a) @ bidders
                 \<and> map_base (\<lambda>b. b\<lparr>allowed_bidders := allowed_bidders (GetBase a)\<rparr>) a' = a))"
  using assms
  by (auto simp: AddAllowedBidders_def Let_def SetAuction_def GetAuction_def SetAllowedBidders_def
      map_base_ident split: option.splits if_splits)

text \<open>The bidder \<open>bob\<close> is added a second time to the auction 1: the list holds him twice.\<close>

theorem AddAllowedBidders_appends_witness:
  "GetAuction ctx_one 1 = Some (FixedPriceAuction auction_one)
   \<and> AddAllowedBidders ledger_keeper ctx_one 1 [] = (Some ErrEmptyAllowedBidders, ctx_one)
   \<and> fst (AddAllowedBidders ledger_keeper ctx_one 1 [\<lparr>bidder = ''bob'', max_bid_amount = Some 30\<rparr>]) = None
   \<and> (\<exists>a'. GetAuction (snd (AddAllowedBidders ledger_keeper ctx_one 1
                               [\<lparr>bidder = ''bob'', max_bid_amount = Some 30\<rparr>])) 1 = Some a'
          \<and> allowed_bidders (GetBase a')
              = [\<lparr>bidder = ''bob'', max_bid_amount = Some 50\<rparr>,
                 \<lparr>bidder = ''bob'', max_bid_amount = Some 30\<rparr>])"
proof -
  have h: "GetAuction ctx_one 1 = Some (FixedPriceAuction auction_one)"
    by (simp add: GetAuction_def ctx_one_def)
  have ok: "fst (AddAllowedBidders ledger_keeper ctx_one 1
                   [\<lparr>bidder = ''bob'', max_bid_amount = Some 30\<rparr>]) = None"
    by (simp add: AddAllowedBidders_def GetAuction_def Let_def example_defs NewCoin_def)
  note t = AddAllowedBidders_appends [OF h, where k = ledger_keeper
      and bidders = "[\<lparr>bidder = ''bob'', max_bid_amount = Some 30\<rparr>]"]
  have c1: "AddAllowedBidders ledger_keeper ctx_one 1 [] = (Some ErrEmptyAllowedBidders, ctx_one)"
    using t by blast
  have "\<exists>a'. GetAuction (snd (AddAllowedBidders ledger_keeper ctx_one 1
                               [\<lparr>bidder = ''bob'', max_bid_amount = Some 30\<rparr>]))
                (auction_id (GetBase (FixedPriceAuction auction_one))) = Some a'
          \<and> allowed_bidders (GetBase a')
              = allowed_bidders (GetBase (FixedPriceAuction auction_one))
                  @ [\<lparr>bidder = ''bob'', max_bid_amount = Some 30\<rparr>]"
    using t ok by blast
  then have c2: "\<exists>a'. GetAuction (snd (AddAllowedBidders ledger_keeper ctx_one 1
                               [\<lparr>bidder = ''bob'', max_bid_amount = Some 30\<rparr>])) 1 = Some a'
          \<and> allowed_bidders (GetBase a')
              = [\<lparr>bidder = ''bob'', max_bid_amount = Some 50\<rparr>,
                 \<lparr>bidder = ''bob'', max_bid_amount = Some 30\<rparr>]"
    by (simp add: auction_one_def NewBaseAuction_def)
  from h c1 ok c2 show ?thesis by blast
qed

lemma GetAllowedBiddersMap_member:
  fixes a :: auction and ab :: allowed_bidder
  assumes "ab \<in> set (allowed_bidders (GetBase a))"
  shows "GetAllowedBiddersMap a (bidder ab) \<noteq> None"
proof -
  have "b \<in> bidder ` set xs \<or> m0 b \<noteq> None \<Longrightarrow>
        fold (\<lambda>ab m. m(bidder ab \<mapsto> max_bid_amount ab)) xs m0 b \<noteq> None"
    for xs :: "allowed_bidder list" and m0 b
    by (induction xs arbitrary: m0) auto
  from this [of "bidder ab" "allowed_bidders (GetBase a)" Map.empty] assms
  show ?thesis unfolding GetAllowedBiddersMap_def by blast
qed

text \<open>
  C3. After every successful \<open>AddAllowedBidders\<close> and \<open>UpdateAllowedBidder\<close> call
  every entry of \<open>allowed_bidders\<close> has a positive \<open>max_bid_amount\<close> that does not
  exceed \<open>selling_coin.amount\<close>, and an update that supplies a greater amount is
  rejected with \<open>InvalidMaxBidAmount\<close>. The keeper does otherwise:
  \<open>UpdateAllowedBidder\<close> compares the amount with zero only. For a bidder of the
  auction and an amount above the selling amount, the call returns no error, and the
  auction it stores holds the bidder with that amount.
\<close>

theorem UpdateAllowedBidder_accepts_amount_above_inventory:
  assumes "GetAuction ctx auctionId = Some a"
    and "ab \<in> set (allowed_bidders (GetBase a))"
    and "0 < m"
    and "amount (selling_coin (GetBase a)) < m"
  shows "fst (UpdateAllowedBidder ctx auctionId (bidder ab) (Some m)) = None
       \<and> (\<exists>a'. GetAuction (snd (UpdateAllowedBidder ctx auctionId (bidder ab) (Some m)))
                  (auction_id (GetBase a)) = Some a'
              \<and> selling_coin (GetBase a') = selling_coin (GetBase a)
              \<and> ab\<lparr>max_bid_amount := Some m\<rparr> \<in> set (allowed_bidders (GetBase a')))"
  using assms GetAllowedBiddersMap_member [OF assms(2)]
  by (auto simp: UpdateAllowedBidder_def Let_def SetMaxBidAmount_def SetAuction_def GetAuction_def)

text \<open>The auction 1 sells 100 \<open>atom\<close>; the amount of \<open>bob\<close> is set to 101.\<close>

theorem UpdateAllowedBidder_accepts_amount_above_inventory_witness:
  "GetAuction ctx_one 1 = Some (FixedPriceAuction auction_one)
   \<and> amount (selling_coin (GetBase (FixedPriceAuction auction_one))) = 100
   \<and> fst (UpdateAllowedBidder ctx_one 1 ''bob'' (Some 101)) = None
   \<and> (\<exists>a'. GetAuction (snd (UpdateAllowedBidder ctx_one 1 ''bob'' (Some 101))) 1 = Some a'
          \<and> selling_coin (GetBase a') = NewCoin ''atom'' 100
          \<and> \<lparr>bidder = ''bob'', max_bid_amount = Some 101\<rparr> \<in> set (allowed_bidders (GetBase a')))"
proof -
  let ?ab = "\<lparr>bidder = ''bob'', max_bid_amount = Some 50\<rparr>"
  have h1: "GetAuction ctx_one 1 = Some (FixedPriceAuction auction_one)"
    by (simp add: GetAuction_def ctx_one_def)
  have h2: "?ab \<in> set (allowed_bidders (GetBase (FixedPriceAuction auction_one)))"
    by (simp add: auction_one_def NewBaseAuction_def)
  have h3: "(0::int) < 101" by simp
  have h4: "amount (selling_coin (GetBase (FixedPriceAuction auction_one))) < 101"
    by (simp add: auction_one_def NewBaseAuction_def NewCoin_def)
  have amt: "amount (selling_coin (GetBase (FixedPriceAuction auction_one))) = 100"
    by (simp add: auction_one_def NewBaseAuction_def NewCoin_def)
  from UpdateAllowedBidder_accepts_amount_above_inventory [OF h1 h2 h3 h4]
  have "fst (UpdateAllowedBidder ctx_one 1 ''bob'' (Some 101)) = None
       \<and> (\<exists>a'. GetAuction (snd (UpdateAllowedBidder ctx_one 1 ''bob'' (Some 101))) 1 = Some a'
              \<and> selling_coin (GetBase a') = NewCoin ''atom'' 100
              \<and> \<lparr>bidder = ''bob'', max_bid_amount = Some 101\<rparr> \<in> set (allowed_bidders (GetBase a')))"
    by (simp add: auction_one_def NewBaseAuction_def)
  with h1 amt show ?thesis by blast
qed

section \<open>Extending and finishing a batch auction\<close>

text \<open>
  C8. When the round of a batch auction is extended, \<open>ExtendRound\<close> appends exactly
  one new entry to \<open>end_times\<close>, the block time plus \<open>extended_period\<close> whole days,
  and leaves every other field of the auction unchanged: putting the old end times back
  gives the auction as it was. The auction is stored under its id.
\<close>

theorem ExtendRound_appends_one_end_time:
  "end_times (base (fst (ExtendRound ctx ba))) =
     end_times (base ba) @ [block_time ctx + int (unat (extended_period ctx)) * nanoseconds_per_day]
   \<and> SetEndTimes (fst (ExtendRound ctx ba)) (end_times (base ba)) = ba
   \<and> GetAuction (snd (ExtendRound ctx ba)) (auction_id (base ba))
        = Some (BatchAuction (fst (ExtendRound ctx ba)))"
  by (simp add: ExtendRound_def Let_def SetEndTimes_def AddDate_days_def SetAuction_def GetAuction_def)

text \<open>At the block time 1000, with an extended period of one day.\<close>

theorem ExtendRound_appends_one_end_time_witness:
  "end_times (base (fst (ExtendRound ctx_batch batch_one))) = [1000, 1000 + 86400000000000]
   \<and> SetEndTimes (fst (ExtendRound ctx_batch batch_one)) (end_times (base batch_one)) = batch_one"
proof -
  have "end_times (base batch_one) @
          [block_time ctx_batch + int (unat (extended_period ctx_batch)) * nanoseconds_per_day]
        = [1000, 1000 + 86400000000000]"
    by (simp add: ctx_batch_def example_defs nanoseconds_per_day_def)
  with ExtendRound_appends_one_end_time [of ctx_batch batch_one] show ?thesis by simp
qed

text \<open>
  C1. For a batch auction whose \<open>end_times\<close> already has the length
  \<open>1 + max_extended_round\<close>, \<open>FinishBatchAuction\<close> finalizes with the latest
  clearing and neither appends a further end time nor runs the comparison of the
  extended round afterwards. The keeper does otherwise: the block that finalizes does
  not return, and the statements after it run on the auction just finalized. When the
  allocation, the release, the refund and the vesting of that block have succeeded and
  no last matched length is stored, the result of the call is that of \<open>ExtendRound\<close>
  after a second clearing, with one end time more.
\<close>

theorem FinishBatchAuction_last_round_falls_through:
  assumes "max_extended_round ba + 1 = of_nat (length (end_times (base ba)))"
    and "CalculateBatchAllocation k ctx ba = (mInfo, ba1, ctx1)"
    and "AllocateSellingCoin k ctx1 (BatchAuction ba1) mInfo = Inr ctx2"
    and "ReleaseRemainingSellingCoin k ctx2 (BatchAuction ba1) = Inr ctx3"
    and "RefundPayingCoin k ctx3 (BatchAuction ba1) mInfo = Inr ctx4"
    and "ApplyVestingSchedules k ctx4 ba1 = Inr (ba5, ctx5)"
    and "GetLastMatchedBidsLen ctx5 (auction_id (base ba5)) = 0"
    and "CalculateBatchAllocation k ctx5 ba5 = (mInfo', ba6, ctx6)"
  shows "FinishBatchAuction k ctx (BatchAuction ba) = Returns (ExtendRound ctx6 ba6)
       \<and> length (end_times (base (fst (ExtendRound ctx6 ba6)))) = Suc (length (end_times (base ba6)))"
  using assms
  by (simp add: FinishBatchAuction_def panic_on_error_def Let_def ExtendRound_def SetEndTimes_def)

text \<open>
  The batch auction 1 has \<open>max_extended_round = 0\<close> and one end time, 1000. At the
  block time 1000 the call sends the 100 \<open>atom\<close> of the selling reserve back to
  \<open>alice\<close>, sets the status \<open>Vesting\<close>, and then gives the auction a second end
  time, one day later.
\<close>

theorem FinishBatchAuction_last_round_falls_through_witness:
  "max_extended_round batch_one + 1 = of_nat (length (end_times (base batch_one)))
   \<and> is_returns (FinishBatchAuction ledger_keeper ctx_batch (BatchAuction batch_one))
   \<and> status (base (fst (returned (FinishBatchAuction ledger_keeper ctx_batch (BatchAuction batch_one)))))
        = AuctionStatusVesting
   \<and> end_times (base (fst (returned (FinishBatchAuction ledger_keeper ctx_batch (BatchAuction batch_one)))))
        = [1000, 1000 + 86400000000000]
   \<and> balance_of (bank (snd (returned (FinishBatchAuction ledger_keeper ctx_batch (BatchAuction batch_one)))))
        ''alice'' ''atom'' = 400"
proof -
  let ?b = "[((''alice'', ''atom''), 400), ((''sellingi'', ''atom''), 0), ((''alice'', ''stake''), 5)] :: balances"
  let ?ba5 = "batch_one\<lparr>base := (base batch_one)\<lparr>status := AuctionStatusVesting\<rparr>\<rparr>"
  let ?ctx5 = "SetAuction (ctx_batch\<lparr>bank := ?b\<rparr>) (BatchAuction ?ba5)"
  have h1: "max_extended_round batch_one + 1 = of_nat (length (end_times (base batch_one)))"
    by (simp add: example_defs)
  have h2: "CalculateBatchAllocation ledger_keeper ctx_batch batch_one = (empty_matching, batch_one, ctx_batch)"
    by (simp add: ledger_keeper_def)
  have h3: "AllocateSellingCoin ledger_keeper ctx_batch (BatchAuction batch_one) empty_matching = Inr ctx_batch"
    by (simp add: AllocateSellingCoin_def ledger_keeper_def empty_matching_def input_output_coins_def)
  have h4: "ReleaseRemainingSellingCoin ledger_keeper ctx_batch (BatchAuction batch_one)
              = Inr (ctx_batch\<lparr>bank := ?b\<rparr>)"
    by (simp add: ReleaseRemainingSellingCoin_def Let_def ctx_batch_def bank_defs example_defs)
  have h5: "RefundPayingCoin ledger_keeper (ctx_batch\<lparr>bank := ?b\<rparr>) (BatchAuction batch_one) empty_matching
              = Inr (ctx_batch\<lparr>bank := ?b\<rparr>)"
    by (simp add: RefundPayingCoin_def ledger_keeper_def empty_matching_def input_output_coins_def)
  have h6: "ApplyVestingSchedules ledger_keeper (ctx_batch\<lparr>bank := ?b\<rparr>) batch_one = Inr (?ba5, ?ctx5)"
    by (simp add: ledger_keeper_def Let_def)
  have h7: "GetLastMatchedBidsLen ?ctx5 (auction_id (base ?ba5)) = 0"
    by (simp add: GetLastMatchedBidsLen_def SetAuction_def ctx_batch_def ctx_one_def)
  have h8: "CalculateBatchAllocation ledger_keeper ?ctx5 ?ba5 = (empty_matching, ?ba5, ?ctx5)"
    by (simp add: ledger_keeper_def)
  note t = FinishBatchAuction_last_round_falls_through [OF h1 h2 h3 h4 h5 h6 h7 h8]
  have r: "FinishBatchAuction ledger_keeper ctx_batch (BatchAuction batch_one)
             = Returns (ExtendRound ?ctx5 ?ba5)"
    using t by (rule conjunct1)
  have e: "end_times (base (fst (ExtendRound ?ctx5 ?ba5))) = [1000, 1000 + 86400000000000]"
    by (simp add: ExtendRound_def Let_def SetEndTimes_def AddDate_days_def SetAuction_def
        ctx_batch_def example_defs nanoseconds_per_day_def)
  have s: "status (base (fst (ExtendRound ?ctx5 ?ba5))) = AuctionStatusVesting"
    by (simp add: ExtendRound_def Let_def SetEndTimes_def)
  have b: "balance_of (bank (snd (ExtendRound ?ctx5 ?ba5))) ''alice'' ''atom'' = 400"
    by (simp add: ExtendRound_def Let_def SetAuction_def balance_of_def)
  from h1 e s b show ?thesis unfolding r by simp
qed

section \<open>The vesting releaser\<close>

lemma release_loop_block_time:
  "block_time (snd (snd (release_loop k n i rest ctx a))) = block_time ctx"
  by (induction rest arbitrary: i ctx a)
     (simp_all add: Let_def SetVestingQueue_def SetAuction_def split: sum.splits)

lemma release_loop_append:
  "release_loop k n i (pre @ post) ctx a =
     (if fst (release_loop k n i pre ctx a) = None
      then release_loop k n (i + length pre) post
             (snd (snd (release_loop k n i pre ctx a))) (fst (snd (release_loop k n i pre ctx a)))
      else release_loop k n i pre ctx a)"
  by (induction pre arbitrary: i ctx a) (simp_all add: Let_def split: sum.splits)

lemma release_loop_prefix_auction:
  "i + length pre < n \<Longrightarrow> fst (snd (release_loop k n i pre ctx a)) = a"
  by (induction pre arbitrary: i ctx a) (auto simp: Let_def split: sum.splits)

text \<open>
  The entries before the last one, when the transfers of those that are due succeed: no
  error, the auction as it was, and the bank after those transfers.
\<close>

lemma release_loop_prefix_transfers:
  assumes "i + length pre < n"
    and "transfer_tranches k (bank ctx) (vesting_reserve_address (GetBase a)) (auctioneer (GetBase a))
           (map (\<lambda>v. NewCoins [vq_paying_coin v])
              (filter (\<lambda>v. ShouldRelease v (block_time ctx)) pre)) = Inr b1"
  shows "fst (release_loop k n i pre ctx a) = None
       \<and> fst (snd (release_loop k n i pre ctx a)) = a
       \<and> bank (snd (snd (release_loop k n i pre ctx a))) = b1"
  using assms
proof (induction pre arbitrary: i ctx)
  case Nil
  then show ?case by simp
next
  case (Cons v pre)
  have lt: "Suc i + length pre < n" using Cons.prems(1) by simp
  show ?case
  proof (cases "ShouldRelease v (block_time ctx)")
    case False
    from Cons.IH [OF lt, of ctx] Cons.prems(2) False show ?thesis by simp
  next
    case True
    obtain b where b: "SendCoins k (bank ctx) (vesting_reserve_address (GetBase a))
        (auctioneer (GetBase a)) (NewCoins [vq_paying_coin v]) = Inr b"
      using Cons.prems(2) True
      by (cases "SendCoins k (bank ctx) (vesting_reserve_address (GetBase a))
        (auctioneer (GetBase a)) (NewCoins [vq_paying_coin v])") simp_all
    define ctx1 where "ctx1 = SetVestingQueue (ctx\<lparr>bank := b\<rparr>) (v\<lparr>vq_released := True\<rparr>)"
    have c1: "block_time ctx1 = block_time ctx" "bank ctx1 = b"
      by (simp_all add: ctx1_def SetVestingQueue_def)
    have ni: "int i \<noteq> int n - 1" using Cons.prems(1) by simp
    have step: "release_loop k n i (v # pre) ctx a = release_loop k n (Suc i) pre ctx1 a"
      using True b ni by (simp add: Let_def ctx1_def)
    have "transfer_tranches k (bank ctx1) (vesting_reserve_address (GetBase a)) (auctioneer (GetBase a))
           (map (\<lambda>v. NewCoins [vq_paying_coin v])
              (filter (\<lambda>v. ShouldRelease v (block_time ctx1)) pre)) = Inr b1"
      using Cons.prems(2) True b by (simp add: c1)
    from Cons.IH [OF lt this] show ?thesis unfolding step .
  qed
qed

lemma AllocateVestingPayingCoin_returns_transfer_error:
  assumes "GetVestingQueuesByAuctionId ctx (auction_id (GetBase a)) = pre @ vq # post"
    and "release_loop k (length (pre @ vq # post)) 0 pre ctx a = (None, a1, ctx1)"
    and "ShouldRelease vq (block_time ctx)"
    and "SendCoins k (bank ctx1) (vesting_reserve_address (GetBase a)) (auctioneer (GetBase a))
           (NewCoins [vq_paying_coin vq]) = Inl e"
  shows "AllocateVestingPayingCoin k ctx a = Returns (Some e, a, ctx1)"
proof -
  have t: "block_time ctx1 = block_time ctx"
    using release_loop_block_time [of k "length (pre @ vq # post)" 0 pre ctx a] assms(2) by simp
  have a1: "a1 = a"
    using release_loop_prefix_auction [of 0 pre "length (pre @ vq # post)" k ctx a] assms(2) by simp
  show ?thesis
    using assms t a1
    by (simp add: AllocateVestingPayingCoin_def Let_def release_loop_append)
qed

text \<open>
  C4. If the bank transfer of a due vesting tranche from the vesting reserve to the
  auctioneer fails, the failure escalates as a panic that is fatal to the block, rather
  than being returned as a recoverable error with the message rejected.

  The queue of an auction in the status \<open>Vesting\<close> is \<open>pre @ vq # post\<close>; the
  transfers of the due tranches of \<open>pre\<close> succeed, one after the other, and lead the
  bank to \<open>b1\<close>; the tranche \<open>vq\<close> is due and its transfer fails in \<open>b1\<close> with the
  error \<open>e\<close>. Then \<open>AllocateVestingPayingCoin\<close> stops at \<open>vq\<close> and returns \<open>e\<close>
  to its caller, and the block tick panics with \<open>e\<close>: it returns no auction and no
  context.
\<close>

theorem vesting_tick_panics_on_transfer_failure:
  assumes "status (GetBase a) = AuctionStatusVesting"
    and "GetVestingQueuesByAuctionId ctx (auction_id (GetBase a)) = pre @ vq # post"
    and "transfer_tranches k (bank ctx) (vesting_reserve_address (GetBase a)) (auctioneer (GetBase a))
           (map (\<lambda>v. NewCoins [vq_paying_coin v])
              (filter (\<lambda>v. ShouldRelease v (block_time ctx)) pre)) = Inr b1"
    and "ShouldRelease vq (block_time ctx)"
    and "SendCoins k b1 (vesting_reserve_address (GetBase a)) (auctioneer (GetBase a))
           (NewCoins [vq_paying_coin vq]) = Inl e"
  shows "vesting_tick k ctx a = Panics e
       \<and> fst (returned (AllocateVestingPayingCoin k ctx a)) = Some e"
proof -
  let ?n = "length (pre @ vq # post)"
  let ?R = "release_loop k ?n 0 pre ctx a"
  have "0 + length pre < ?n" by simp
  from release_loop_prefix_transfers [OF this assms(3)]
  have n: "fst ?R = None" and b: "bank (snd (snd ?R)) = b1" by simp_all
  from n have r: "?R = (None, fst (snd ?R), snd (snd ?R))"
    by (metis prod.collapse)
  have s: "SendCoins k (bank (snd (snd ?R))) (vesting_reserve_address (GetBase a))
             (auctioneer (GetBase a)) (NewCoins [vq_paying_coin vq]) = Inl e"
    using assms(5) b by simp
  have ret: "AllocateVestingPayingCoin k ctx a = Returns (Some e, a, snd (snd ?R))"
    by (rule AllocateVestingPayingCoin_returns_transfer_error [OF assms(2) r assms(4) s])
  show ?thesis
    using assms(1) by (simp add: vesting_tick_def ret)
qed

lemmas vesting_example_defs =
  ctx_vesting_def auction_vesting_def tranche_a_def tranche_b_def tranche_c_def
  GetVestingQueuesByAuctionId_def ShouldRelease_def SetVestingQueue_def SetAuction_def
  SetStatus_def vq_same_key_def vq_key_less_def Let_def

text \<open>
  The vesting reserve holds 50 \<open>usd\<close> at the block time 200: the tranche of 40 is
  paid, the transfer of the tranche of 60 fails, and the tick panics.
\<close>

theorem vesting_tick_panics_on_transfer_failure_witness:
  "status (GetBase auction_vesting) = AuctionStatusVesting
   \<and> GetVestingQueuesByAuctionId (ctx_vesting 50 200) (auction_id (GetBase auction_vesting))
       = [tranche_a] @ tranche_b # []
   \<and> ShouldRelease tranche_b (block_time (ctx_vesting 50 200))
   \<and> SendCoins ledger_keeper [((''alice'', ''usd''), 40), ((''vestingi'', ''usd''), 10)]
        (vesting_reserve_address (GetBase auction_vesting)) (auctioneer (GetBase auction_vesting))
        (NewCoins [vq_paying_coin tranche_b]) = Inl ErrInsufficientFunds
   \<and> vesting_tick ledger_keeper (ctx_vesting 50 200) auction_vesting = Panics ErrInsufficientFunds
   \<and> fst (returned (AllocateVestingPayingCoin ledger_keeper (ctx_vesting 50 200) auction_vesting))
       = Some ErrInsufficientFunds"
proof -
  let ?ctx = "ctx_vesting 50 200"
  let ?b1 = "[((''alice'', ''usd''), 40), ((''vestingi'', ''usd''), 10)] :: balances"
  have h0: "status (GetBase auction_vesting) = AuctionStatusVesting"
    by (simp add: auction_vesting_def)
  have h1: "GetVestingQueuesByAuctionId ?ctx (auction_id (GetBase auction_vesting))
     = [tranche_a] @ tranche_b # []"
    by (simp add: vesting_example_defs example_defs)
  have h2: "transfer_tranches ledger_keeper (bank ?ctx) (vesting_reserve_address (GetBase auction_vesting))
           (auctioneer (GetBase auction_vesting))
           (map (\<lambda>v. NewCoins [vq_paying_coin v])
              (filter (\<lambda>v. ShouldRelease v (block_time ?ctx)) [tranche_a])) = Inr ?b1"
    by (simp add: vesting_example_defs bank_defs example_defs)
  have h3: "ShouldRelease tranche_b (block_time ?ctx)"
    by (simp add: vesting_example_defs example_defs)
  have h4: "SendCoins ledger_keeper ?b1
              (vesting_reserve_address (GetBase auction_vesting)) (auctioneer (GetBase auction_vesting))
              (NewCoins [vq_paying_coin tranche_b]) = Inl ErrInsufficientFunds"
    by (simp add: vesting_example_defs bank_defs example_defs)
  note t = vesting_tick_panics_on_transfer_failure [OF h0 h1 h2 h3 h4]
  show ?thesis
    by (rule conjI [OF h0 conjI [OF h1 conjI [OF h3 conjI [OF h4 t]]]])
qed

lemma vq_key_less_not_same: "vq_key_less v w \<Longrightarrow> \<not> vq_same_key v w \<and> \<not> vq_same_key w v"
  unfolding vq_key_less_def vq_same_key_def by auto

lemma vq_same_key_less: "vq_same_key v x \<Longrightarrow> vq_key_less w x \<Longrightarrow> vq_key_less w v"
  unfolding vq_key_less_def vq_same_key_def by auto

lemma vq_key_less_asym: "vq_key_less v w \<Longrightarrow> \<not> vq_key_less w v"
  unfolding vq_key_less_def by auto

text \<open>In a store in the strict order of the keys, an entry is known by its key.\<close>

lemma vq_key_distinct:
  "sorted_wrt vq_key_less qs \<Longrightarrow> v \<in> set qs \<Longrightarrow> w \<in> set qs \<Longrightarrow> vq_same_key v w \<Longrightarrow> v = w"
proof (induction qs)
  case Nil
  then show ?case by simp
next
  case (Cons x xs)
  have less: "\<forall>y \<in> set xs. vq_key_less x y" and sorted: "sorted_wrt vq_key_less xs"
    using Cons.prems(1) by simp_all
  consider "v = x" "w = x" | "v = x" "w \<in> set xs" | "v \<in> set xs" "w = x" | "v \<in> set xs" "w \<in> set xs"
    using Cons.prems(2,3) by auto
  then show ?case
  proof cases
    case 1
    then show ?thesis by simp
  next
    case 2
    with less Cons.prems(4) vq_key_less_not_same show ?thesis by blast
  next
    case 3
    with less Cons.prems(4) vq_key_less_not_same show ?thesis by blast
  next
    case 4
    with Cons.IH sorted Cons.prems(4) show ?thesis by blast
  qed
qed

text \<open>Writing an entry whose key is in the store replaces the entry of that key.\<close>

lemma store_vq_replace:
  assumes "sorted_wrt vq_key_less qs" and "\<exists>w \<in> set qs. vq_same_key v w"
  shows "store_vq v qs = map (\<lambda>w. if vq_same_key v w then v else w) qs"
  using assms
proof (induction qs)
  case Nil
  then show ?case by simp
next
  case (Cons w ws)
  have less: "\<forall>y \<in> set ws. vq_key_less w y" and sorted: "sorted_wrt vq_key_less ws"
    using Cons.prems(1) by simp_all
  show ?case
  proof (cases "vq_same_key v w")
    case True
    have "\<not> vq_same_key v x" if "x \<in> set ws" for x
    proof
      assume "vq_same_key v x"
      then have "vq_same_key w x" using True unfolding vq_same_key_def by simp
      moreover have "vq_key_less w x" using less that by blast
      ultimately show False using vq_key_less_not_same by blast
    qed
    then have "map (\<lambda>w. if vq_same_key v w then v else w) ws = ws"
      by (simp add: map_idI)
    with True show ?thesis by simp
  next
    case False
    then obtain x where x: "x \<in> set ws" "vq_same_key v x"
      using Cons.prems(2) by auto
    have "vq_key_less w x" using less x(1) by blast
    then have "vq_key_less w v" using x(2) vq_same_key_less by blast
    then have nl: "\<not> vq_key_less v w" using vq_key_less_asym by blast
    have "store_vq v ws = map (\<lambda>w. if vq_same_key v w then v else w) ws"
      using Cons.IH sorted x by blast
    with False nl show ?thesis by simp
  qed
qed

text \<open>
  The store after a loop without error: the entries visited and due are released. The
  entries visited are those read before the loop; the store may already hold them
  released.
\<close>

lemma release_loop_queues:
  assumes "fst (release_loop k n i rest ctx a) = None"
    and "sorted_wrt vq_key_less (vesting_queues ctx)"
    and "\<forall>v \<in> set rest. \<exists>w \<in> set (vesting_queues ctx).
           vq_same_key v w \<and> w\<lparr>vq_released := True\<rparr> = v\<lparr>vq_released := True\<rparr>"
  shows "vesting_queues (snd (snd (release_loop k n i rest ctx a))) =
           map (\<lambda>w. if \<exists>v \<in> set rest. vq_same_key v w \<and> ShouldRelease v (block_time ctx)
                     then w\<lparr>vq_released := True\<rparr> else w) (vesting_queues ctx)"
  using assms
proof (induction rest arbitrary: i ctx a)
  case Nil
  then show ?case by simp
next
  case (Cons v rest)
  let ?t = "block_time ctx"
  let ?qs = "vesting_queues ctx"
  show ?case
  proof (cases "ShouldRelease v ?t")
    case False
    have "fst (release_loop k n (Suc i) rest ctx a) = None"
      using Cons.prems(1) False by simp
    from Cons.IH [OF this Cons.prems(2)] Cons.prems(3) False
    show ?thesis by simp
  next
    case True
    let ?v' = "v\<lparr>vq_released := True\<rparr>"
    let ?f = "\<lambda>w. if vq_same_key v w then w\<lparr>vq_released := True\<rparr> else w"
    obtain b where b: "SendCoins k (bank ctx) (vesting_reserve_address (GetBase a))
        (auctioneer (GetBase a)) (NewCoins [vq_paying_coin v]) = Inr b"
      using Cons.prems(1) True by (cases "SendCoins k (bank ctx) (vesting_reserve_address (GetBase a))
        (auctioneer (GetBase a)) (NewCoins [vq_paying_coin v])") (simp_all add: Let_def)
    obtain w0 where w0: "w0 \<in> set ?qs" "vq_same_key v w0" "w0\<lparr>vq_released := True\<rparr> = ?v'"
      using Cons.prems(3) by auto
    have same': "vq_same_key ?v' w = vq_same_key v w" for w
      by (simp add: vq_same_key_def)
    have "store_vq ?v' ?qs = map (\<lambda>w. if vq_same_key ?v' w then ?v' else w) ?qs"
      using Cons.prems(2) w0(1,2) by (intro store_vq_replace) (auto simp: same')
    also have "\<dots> = map ?f ?qs"
    proof (rule map_cong [OF refl])
      fix w assume w: "w \<in> set ?qs"
      show "(if vq_same_key ?v' w then ?v' else w) = ?f w"
      proof (cases "vq_same_key v w")
        case True
        have "vq_same_key w0 w" using True w0(2) by (auto simp: vq_same_key_def)
        then have "w0 = w" using vq_key_distinct [OF Cons.prems(2) w0(1) w] by simp
        with True w0(3) show ?thesis by (simp add: same')
      next
        case False
        then show ?thesis by (simp add: same')
      qed
    qed
    finally have q1: "store_vq ?v' ?qs = map ?f ?qs" .
    define ctx1 where "ctx1 = SetVestingQueue (ctx\<lparr>bank := b\<rparr>) ?v'"
    define ctx2 where "ctx2 = (if int i = int n - 1
        then SetAuction ctx1 (SetStatus a AuctionStatusFinished) else ctx1)"
    define a2 where "a2 = (if int i = int n - 1 then SetStatus a AuctionStatusFinished else a)"
    have step: "release_loop k n i (v # rest) ctx a = release_loop k n (Suc i) rest ctx2 a2"
      using True b by (simp add: Let_def ctx1_def ctx2_def a2_def)
    have qs2: "vesting_queues ctx2 = map ?f ?qs"
      using q1 by (simp add: ctx2_def ctx1_def SetVestingQueue_def SetAuction_def)
    have t2: "block_time ctx2 = ?t"
      by (simp add: ctx2_def ctx1_def SetVestingQueue_def SetAuction_def)
    have key_f: "vq_same_key x (?f w) = vq_same_key x w" for x w
      by (simp add: vq_same_key_def)
    have less_f: "vq_key_less (?f x) (?f w) = vq_key_less x w" for x w
      by (simp add: vq_key_less_def)
    have sorted2: "sorted_wrt vq_key_less (vesting_queues ctx2)"
      unfolding qs2 sorted_wrt_map less_f using Cons.prems(2) .
    have inv2: "\<forall>x \<in> set rest. \<exists>w \<in> set (vesting_queues ctx2).
           vq_same_key x w \<and> w\<lparr>vq_released := True\<rparr> = x\<lparr>vq_released := True\<rparr>"
    proof
      fix x assume "x \<in> set rest"
      then obtain w where w: "w \<in> set ?qs" "vq_same_key x w"
          "w\<lparr>vq_released := True\<rparr> = x\<lparr>vq_released := True\<rparr>"
        using Cons.prems(3) by auto
      have "?f w \<in> set (vesting_queues ctx2)" using w(1) by (simp add: qs2)
      moreover have "vq_same_key x (?f w)" using w(2) by (simp add: key_f)
      moreover have "(?f w)\<lparr>vq_released := True\<rparr> = x\<lparr>vq_released := True\<rparr>"
        using w(3) by simp
      ultimately show "\<exists>w \<in> set (vesting_queues ctx2).
           vq_same_key x w \<and> w\<lparr>vq_released := True\<rparr> = x\<lparr>vq_released := True\<rparr>"
        by blast
    qed
    have none2: "fst (release_loop k n (Suc i) rest ctx2 a2) = None"
      using Cons.prems(1) step by simp
    have "vesting_queues (snd (snd (release_loop k n i (v # rest) ctx a))) =
          map (\<lambda>w. if \<exists>x \<in> set rest. vq_same_key x w \<and> ShouldRelease x ?t
                    then w\<lparr>vq_released := True\<rparr> else w) (map ?f ?qs)"
      using Cons.IH [OF none2 sorted2 inv2] by (simp only: step qs2 t2)
    also have "\<dots> = map (\<lambda>w. if \<exists>x \<in> set (v # rest). vq_same_key x w \<and> ShouldRelease x ?t
                     then w\<lparr>vq_released := True\<rparr> else w) ?qs"
      using True by (auto simp: key_f vq_same_key_def)
    finally show ?thesis .
  qed
qed

text \<open>
  The auction after a loop without error over all the entries: it is finished when the
  last entry was due, and written to the store then.
\<close>

lemma release_loop_status:
  assumes "fst (release_loop k n i rest ctx a) = None" and "i + length rest = n"
  shows "fst (snd (release_loop k n i rest ctx a)) =
           (if rest \<noteq> [] \<and> ShouldRelease (last rest) (block_time ctx)
            then SetStatus a AuctionStatusFinished else a)
       \<and> auctions (snd (snd (release_loop k n i rest ctx a))) =
           (if rest \<noteq> [] \<and> ShouldRelease (last rest) (block_time ctx)
            then (auctions ctx)(auction_id (GetBase a) \<mapsto> SetStatus a AuctionStatusFinished)
            else auctions ctx)"
  using assms
proof (induction rest arbitrary: i ctx a)
  case Nil
  then show ?case by simp
next
  case (Cons v rest)
  show ?case
  proof (cases "ShouldRelease v (block_time ctx)")
    case False
    have "fst (release_loop k n (Suc i) rest ctx a) = None"
      using Cons.prems(1) False by simp
    from Cons.IH [OF this] Cons.prems(2) False show ?thesis by simp
  next
    case True
    obtain b where b: "SendCoins k (bank ctx) (vesting_reserve_address (GetBase a))
        (auctioneer (GetBase a)) (NewCoins [vq_paying_coin v]) = Inr b"
      using Cons.prems(1) True by (cases "SendCoins k (bank ctx) (vesting_reserve_address (GetBase a))
        (auctioneer (GetBase a)) (NewCoins [vq_paying_coin v])") (simp_all add: Let_def)
    define ctx1 where "ctx1 = SetVestingQueue (ctx\<lparr>bank := b\<rparr>) (v\<lparr>vq_released := True\<rparr>)"
    have c1: "block_time ctx1 = block_time ctx" "auctions ctx1 = auctions ctx"
      by (simp_all add: ctx1_def SetVestingQueue_def)
    show ?thesis
    proof (cases "rest = []")
      case True
      then have "int i = int n - 1" using Cons.prems(2) by simp
      with True \<open>ShouldRelease v (block_time ctx)\<close> b show ?thesis
        by (simp add: Let_def SetAuction_def SetVestingQueue_def SetStatus_def)
    next
      case False
      then have ni: "int i \<noteq> int n - 1" using Cons.prems(2) by (cases rest) auto
      have step: "release_loop k n i (v # rest) ctx a = release_loop k n (Suc i) rest ctx1 a"
        using \<open>ShouldRelease v (block_time ctx)\<close> b ni by (simp add: Let_def ctx1_def)
      have "fst (release_loop k n (Suc i) rest ctx1 a) = None"
        using Cons.prems(1) step by simp
      from Cons.IH [OF this] Cons.prems(2) False show ?thesis
        unfolding step by (simp add: c1)
    qed
  qed
qed

text \<open>The bank after a loop without error: the due tranches have been transferred in order.\<close>

lemma release_loop_bank:
  assumes "fst (release_loop k n i rest ctx a) = None" and "i + length rest = n"
  shows "transfer_tranches k (bank ctx) (vesting_reserve_address (GetBase a)) (auctioneer (GetBase a))
           (map (\<lambda>v. NewCoins [vq_paying_coin v])
              (filter (\<lambda>v. ShouldRelease v (block_time ctx)) rest))
         = Inr (bank (snd (snd (release_loop k n i rest ctx a))))"
  using assms
proof (induction rest arbitrary: i ctx a)
  case Nil
  then show ?case by simp
next
  case (Cons v rest)
  show ?case
  proof (cases "ShouldRelease v (block_time ctx)")
    case False
    have "fst (release_loop k n (Suc i) rest ctx a) = None"
      using Cons.prems(1) False by simp
    from Cons.IH [OF this] Cons.prems(2) False show ?thesis by simp
  next
    case True
    obtain b where b: "SendCoins k (bank ctx) (vesting_reserve_address (GetBase a))
        (auctioneer (GetBase a)) (NewCoins [vq_paying_coin v]) = Inr b"
      using Cons.prems(1) True by (cases "SendCoins k (bank ctx) (vesting_reserve_address (GetBase a))
        (auctioneer (GetBase a)) (NewCoins [vq_paying_coin v])") (simp_all add: Let_def)
    define ctx1 where "ctx1 = SetVestingQueue (ctx\<lparr>bank := b\<rparr>) (v\<lparr>vq_released := True\<rparr>)"
    have c1: "block_time ctx1 = block_time ctx" "bank ctx1 = b"
      by (simp_all add: ctx1_def SetVestingQueue_def)
    show ?thesis
    proof (cases "rest = []")
      case True
      with \<open>ShouldRelease v (block_time ctx)\<close> b show ?thesis
        by (simp add: Let_def SetAuction_def SetVestingQueue_def)
    next
      case False
      then have ni: "int i \<noteq> int n - 1" using Cons.prems(2) by (cases rest) auto
      have step: "release_loop k n i (v # rest) ctx a = release_loop k n (Suc i) rest ctx1 a"
        using \<open>ShouldRelease v (block_time ctx)\<close> b ni by (simp add: Let_def ctx1_def)
      have "fst (release_loop k n (Suc i) rest ctx1 a) = None"
        using Cons.prems(1) step by simp
      from Cons.IH [OF this] Cons.prems(2) \<open>ShouldRelease v (block_time ctx)\<close> b show ?thesis
        unfolding step by (simp add: c1)
    qed
  qed
qed

lemma sorted_wrt_last: "sorted_wrt P xs \<Longrightarrow> x \<in> set xs \<Longrightarrow> x = last xs \<or> P x (last xs)"
  by (induction xs) auto

lemma sorted_filter_last_max:
  assumes "sorted_wrt vq_key_less qs" and "v \<in> set (filter (\<lambda>x. vq_auction_id x = i) qs)"
  shows "vq_release_time v \<le> vq_release_time (last (filter (\<lambda>x. vq_auction_id x = i) qs))"
proof -
  let ?vs = "filter (\<lambda>x. vq_auction_id x = i) qs"
  have s: "sorted_wrt vq_key_less ?vs" using assms(1) by (rule sorted_wrt_filter)
  have ne: "?vs \<noteq> []" using assms(2) by (metis empty_iff empty_set)
  then have "last ?vs \<in> set ?vs" by (rule last_in_set)
  then have l: "vq_auction_id (last ?vs) = i" by simp
  have v: "vq_auction_id v = i" using assms(2) by simp
  from sorted_wrt_last [OF s assms(2)] show ?thesis
  proof
    assume "v = last ?vs"
    then show ?thesis by simp
  next
    assume "vq_key_less v (last ?vs)"
    then show ?thesis using l v unfolding vq_key_less_def by auto
  qed
qed

lemma filter_map_released:
  "filter (\<lambda>x. vq_auction_id x = i)
     (map (\<lambda>vq. if vq_auction_id vq = i \<and> P vq then vq\<lparr>vq_released := True\<rparr> else vq) qs)
   = map (\<lambda>vq. if P vq then vq\<lparr>vq_released := True\<rparr> else vq)
       (filter (\<lambda>x. vq_auction_id x = i) qs)"
  by (induction qs) auto

text \<open>
  C6. On a block tick, for an auction in the status \<open>Vesting\<close>, the vesting releaser
  transfers the \<open>paying_coin\<close> to the auctioneer and marks \<open>released = true\<close> for
  exactly the entries of the vesting queue with \<open>release_time \<le> block_time\<close> and
  \<open>released = false\<close>, scanning in the order of the release times; and the status of
  the auction becomes \<open>Finished\<close> exactly when every entry of its queue has
  \<open>released = true\<close>.

  The store keeps the entries in the strict order of their keys, and an auction in the
  status \<open>Vesting\<close> has a queue whose last tranche is still to be released. Then, for a
  call that returns no error: the entries of the store that are due and belong to the
  auction are marked, all others are as before; the bank is the result of the transfers
  of the due tranches, in the order of the queue; the queue is in the order of the
  release times; the auction returned is finished exactly when every entry of its queue
  is released after the call, it differs from the auction passed in that status alone,
  and it is stored when finished.
\<close>

theorem AllocateVestingPayingCoin_releases_due_entries:
  assumes sorted: "sorted_wrt vq_key_less (vesting_queues ctx)"
    and ok: "AllocateVestingPayingCoin k ctx a = Returns (None, a', ctx')"
    and vesting: "status (GetBase a) = AuctionStatusVesting"
    and pending: "GetVestingQueuesByAuctionId ctx (auction_id (GetBase a)) \<noteq> []"
      "\<not> vq_released (last (GetVestingQueuesByAuctionId ctx (auction_id (GetBase a))))"
  shows "vesting_queues ctx' =
           map (\<lambda>vq. if vq_auction_id vq = auction_id (GetBase a) \<and> vq_release_time vq \<le> block_time ctx
                          \<and> \<not> vq_released vq
                      then vq\<lparr>vq_released := True\<rparr> else vq) (vesting_queues ctx)
       \<and> transfer_tranches k (bank ctx) (vesting_reserve_address (GetBase a)) (auctioneer (GetBase a))
           (map (\<lambda>vq. NewCoins [vq_paying_coin vq])
              (filter (\<lambda>vq. vq_release_time vq \<le> block_time ctx \<and> \<not> vq_released vq)
                 (GetVestingQueuesByAuctionId ctx (auction_id (GetBase a)))))
           = Inr (bank ctx')
       \<and> sorted (map vq_release_time (GetVestingQueuesByAuctionId ctx (auction_id (GetBase a))))
       \<and> (status (GetBase a') = AuctionStatusFinished
           \<longleftrightarrow> (\<forall>vq \<in> set (GetVestingQueuesByAuctionId ctx' (auction_id (GetBase a))). vq_released vq))
       \<and> a' = (if status (GetBase a') = AuctionStatusFinished
               then SetStatus a AuctionStatusFinished else a)
       \<and> (status (GetBase a') = AuctionStatusFinished
           \<longrightarrow> GetAuction ctx' (auction_id (GetBase a)) = Some a')"
proof -
  let ?i = "auction_id (GetBase a)"
  let ?vqs = "GetVestingQueuesByAuctionId ctx ?i"
  let ?t = "block_time ctx"
  let ?r = "release_loop k (length ?vqs) 0 ?vqs ctx a"
  have r: "?r = (None, a', ctx')"
    using ok by (simp add: AllocateVestingPayingCoin_def Let_def)
  then have none: "fst ?r = None" and a': "fst (snd ?r) = a'" and ctx': "snd (snd ?r) = ctx'"
    by simp_all
  have vqs: "?vqs = filter (\<lambda>x. vq_auction_id x = ?i) (vesting_queues ctx)"
    by (simp add: GetVestingQueuesByAuctionId_def)
  have inv: "\<forall>v \<in> set ?vqs. \<exists>w \<in> set (vesting_queues ctx).
           vq_same_key v w \<and> w\<lparr>vq_released := True\<rparr> = v\<lparr>vq_released := True\<rparr>"
  proof
    fix v assume "v \<in> set ?vqs"
    then have "v \<in> set (vesting_queues ctx)" by (simp add: vqs)
    moreover have "vq_same_key v v" by (simp add: vq_same_key_def)
    ultimately show "\<exists>w \<in> set (vesting_queues ctx).
           vq_same_key v w \<and> w\<lparr>vq_released := True\<rparr> = v\<lparr>vq_released := True\<rparr>"
      by blast
  qed
  have "vesting_queues ctx' =
           map (\<lambda>w. if \<exists>v \<in> set ?vqs. vq_same_key v w \<and> ShouldRelease v ?t
                     then w\<lparr>vq_released := True\<rparr> else w) (vesting_queues ctx)"
    using release_loop_queues [OF none sorted inv] ctx' by simp
  also have "\<dots> = map (\<lambda>vq. if vq_auction_id vq = ?i \<and> vq_release_time vq \<le> ?t \<and> \<not> vq_released vq
                      then vq\<lparr>vq_released := True\<rparr> else vq) (vesting_queues ctx)"
  proof (rule map_cong [OF refl])
    fix w assume w: "w \<in> set (vesting_queues ctx)"
    have "(\<exists>v \<in> set ?vqs. vq_same_key v w \<and> ShouldRelease v ?t)
        \<longleftrightarrow> (vq_auction_id w = ?i \<and> vq_release_time w \<le> ?t \<and> \<not> vq_released w)"
    proof
      assume "\<exists>v \<in> set ?vqs. vq_same_key v w \<and> ShouldRelease v ?t"
      then obtain v where v: "v \<in> set ?vqs" "vq_same_key v w" "ShouldRelease v ?t" by blast
      then have "v \<in> set (vesting_queues ctx)" by (simp add: vqs)
      then have "v = w" using vq_key_distinct [OF sorted _ w v(2)] by simp
      with v show "vq_auction_id w = ?i \<and> vq_release_time w \<le> ?t \<and> \<not> vq_released w"
        by (simp add: vqs ShouldRelease_def)
    next
      assume "vq_auction_id w = ?i \<and> vq_release_time w \<le> ?t \<and> \<not> vq_released w"
      with w have "w \<in> set ?vqs \<and> vq_same_key w w \<and> ShouldRelease w ?t"
        by (simp add: vqs ShouldRelease_def vq_same_key_def)
      then show "\<exists>v \<in> set ?vqs. vq_same_key v w \<and> ShouldRelease v ?t" by blast
    qed
    then show "(if \<exists>v \<in> set ?vqs. vq_same_key v w \<and> ShouldRelease v ?t
                then w\<lparr>vq_released := True\<rparr> else w)
             = (if vq_auction_id w = ?i \<and> vq_release_time w \<le> ?t \<and> \<not> vq_released w
                then w\<lparr>vq_released := True\<rparr> else w)"
      by simp
  qed
  finally have queues: "vesting_queues ctx' =
           map (\<lambda>vq. if vq_auction_id vq = ?i \<and> vq_release_time vq \<le> ?t \<and> \<not> vq_released vq
                      then vq\<lparr>vq_released := True\<rparr> else vq) (vesting_queues ctx)" .
  have "(\<lambda>v. ShouldRelease v ?t) = (\<lambda>vq. vq_release_time vq \<le> ?t \<and> \<not> vq_released vq)"
    by (simp add: ShouldRelease_def fun_eq_iff)
  with release_loop_bank [OF none, simplified] ctx'
  have transfers: "transfer_tranches k (bank ctx) (vesting_reserve_address (GetBase a))
           (auctioneer (GetBase a))
           (map (\<lambda>vq. NewCoins [vq_paying_coin vq])
              (filter (\<lambda>vq. vq_release_time vq \<le> ?t \<and> \<not> vq_released vq) ?vqs))
         = Inr (bank ctx')"
    by simp
  have s: "sorted_wrt vq_key_less ?vqs" unfolding vqs using sorted by (rule sorted_wrt_filter)
  have "sorted_wrt (\<lambda>x y. vq_release_time x \<le> vq_release_time y) ?vqs"
    by (rule sorted_wrt_mono_rel [OF _ s]) (auto simp: vqs vq_key_less_def)
  then have order: "sorted (map vq_release_time ?vqs)"
    by (simp add: sorted_map)
  have st: "a' = (if ShouldRelease (last ?vqs) ?t then SetStatus a AuctionStatusFinished else a)"
    and au: "auctions ctx' = (if ShouldRelease (last ?vqs) ?t
            then (auctions ctx)(?i \<mapsto> SetStatus a AuctionStatusFinished) else auctions ctx)"
    using release_loop_status [OF none, simplified] a' ctx' pending(1) by simp_all
  have fin: "status (GetBase a') = AuctionStatusFinished \<longleftrightarrow> ShouldRelease (last ?vqs) ?t"
    using st vesting by (simp add: SetStatus_def)
  have frame: "a' = (if status (GetBase a') = AuctionStatusFinished
                     then SetStatus a AuctionStatusFinished else a)"
    using st fin by simp
  have stored: "status (GetBase a') = AuctionStatusFinished \<longrightarrow> GetAuction ctx' ?i = Some a'"
    using st au fin by (simp add: GetAuction_def)
  have after: "GetVestingQueuesByAuctionId ctx' ?i =
      map (\<lambda>vq. if vq_release_time vq \<le> ?t \<and> \<not> vq_released vq
                 then vq\<lparr>vq_released := True\<rparr> else vq) ?vqs"
    unfolding GetVestingQueuesByAuctionId_def queues by (rule filter_map_released)
  have complete: "status (GetBase a') = AuctionStatusFinished
           \<longleftrightarrow> (\<forall>vq \<in> set (GetVestingQueuesByAuctionId ctx' ?i). vq_released vq)"
  proof
    assume "status (GetBase a') = AuctionStatusFinished"
    then have due: "vq_release_time (last ?vqs) \<le> ?t" using fin by (simp add: ShouldRelease_def)
    have le: "vq_release_time v \<le> ?t" if "v \<in> set ?vqs" for v
      using sorted_filter_last_max [OF sorted, of v ?i] that due unfolding vqs by simp
    show "\<forall>vq \<in> set (GetVestingQueuesByAuctionId ctx' ?i). vq_released vq"
    proof
      fix vq assume "vq \<in> set (GetVestingQueuesByAuctionId ctx' ?i)"
      then have "vq \<in> (\<lambda>vq. if vq_release_time vq \<le> ?t \<and> \<not> vq_released vq
                   then vq\<lparr>vq_released := True\<rparr> else vq) ` set ?vqs"
        unfolding after set_map .
      then obtain v where v: "v \<in> set ?vqs"
        and "vq = (if vq_release_time v \<le> ?t \<and> \<not> vq_released v
                   then v\<lparr>vq_released := True\<rparr> else v)"
        by (rule imageE)
      with le [OF v] show "vq_released vq" by simp
    qed
  next
    assume all: "\<forall>vq \<in> set (GetVestingQueuesByAuctionId ctx' ?i). vq_released vq"
    let ?f = "\<lambda>vq. if vq_release_time vq \<le> ?t \<and> \<not> vq_released vq
                   then vq\<lparr>vq_released := True\<rparr> else vq"
    have "last ?vqs \<in> set ?vqs" using pending(1) by (rule last_in_set)
    then have "?f (last ?vqs) \<in> ?f ` set ?vqs" by (rule imageI)
    then have "?f (last ?vqs) \<in> set (GetVestingQueuesByAuctionId ctx' ?i)"
      unfolding after set_map .
    with all have "vq_released (?f (last ?vqs))" by (rule bspec)
    then have "vq_release_time (last ?vqs) \<le> ?t" using pending(2) by (simp split: if_splits)
    then show "status (GetBase a') = AuctionStatusFinished"
      using fin pending(2) by (simp add: ShouldRelease_def)
  qed
  show ?thesis
    by (rule conjI [OF queues conjI [OF transfers conjI [OF order conjI [OF complete
          conjI [OF frame stored]]]]])
qed

text \<open>
  The auction 1 with 100 \<open>usd\<close> in the vesting reserve. At the block time 200 both
  tranches are due: both are released and the auction is finished. At the block time 100
  the first tranche alone is due: the auction stays in the status \<open>Vesting\<close>.
\<close>

theorem AllocateVestingPayingCoin_releases_due_entries_witness:
  "sorted_wrt vq_key_less (vesting_queues (ctx_vesting 100 200))
   \<and> status (GetBase auction_vesting) = AuctionStatusVesting
   \<and> fst (returned (AllocateVestingPayingCoin ledger_keeper (ctx_vesting 100 200) auction_vesting)) = None
   \<and> vesting_queues (snd (snd (returned
          (AllocateVestingPayingCoin ledger_keeper (ctx_vesting 100 200) auction_vesting))))
        = map (\<lambda>vq. if vq_auction_id vq = auction_id (GetBase auction_vesting)
                          \<and> vq_release_time vq \<le> block_time (ctx_vesting 100 200) \<and> \<not> vq_released vq
                      then vq\<lparr>vq_released := True\<rparr> else vq) (vesting_queues (ctx_vesting 100 200))
   \<and> (status (GetBase (fst (snd (returned
          (AllocateVestingPayingCoin ledger_keeper (ctx_vesting 100 200) auction_vesting)))))
          = AuctionStatusFinished)
      = (\<forall>vq \<in> set (GetVestingQueuesByAuctionId (snd (snd (returned
              (AllocateVestingPayingCoin ledger_keeper (ctx_vesting 100 200) auction_vesting))))
            (auction_id (GetBase auction_vesting))). vq_released vq)
   \<and> status (GetBase (fst (snd (returned
          (AllocateVestingPayingCoin ledger_keeper (ctx_vesting 100 200) auction_vesting)))))
        = AuctionStatusFinished
   \<and> fst (returned (AllocateVestingPayingCoin ledger_keeper (ctx_vesting 100 100) auction_vesting)) = None
   \<and> (status (GetBase (fst (snd (returned
          (AllocateVestingPayingCoin ledger_keeper (ctx_vesting 100 100) auction_vesting)))))
          = AuctionStatusFinished)
      = (\<forall>vq \<in> set (GetVestingQueuesByAuctionId (snd (snd (returned
              (AllocateVestingPayingCoin ledger_keeper (ctx_vesting 100 100) auction_vesting))))
            (auction_id (GetBase auction_vesting))). vq_released vq)
   \<and> status (GetBase (fst (snd (returned
          (AllocateVestingPayingCoin ledger_keeper (ctx_vesting 100 100) auction_vesting)))))
        = AuctionStatusVesting"
proof -
  let ?XA = "AllocateVestingPayingCoin ledger_keeper (ctx_vesting 100 200) auction_vesting"
  let ?XB = "AllocateVestingPayingCoin ledger_keeper (ctx_vesting 100 100) auction_vesting"
  have sA: "sorted_wrt vq_key_less (vesting_queues (ctx_vesting 100 200))"
    and sB: "sorted_wrt vq_key_less (vesting_queues (ctx_vesting 100 100))"
    by (simp_all add: vesting_example_defs)
  have v: "status (GetBase auction_vesting) = AuctionStatusVesting"
    by (simp add: auction_vesting_def)
  have pA: "GetVestingQueuesByAuctionId (ctx_vesting 100 200) (auction_id (GetBase auction_vesting)) \<noteq> []"
      "\<not> vq_released (last (GetVestingQueuesByAuctionId (ctx_vesting 100 200)
                               (auction_id (GetBase auction_vesting))))"
    and pB: "GetVestingQueuesByAuctionId (ctx_vesting 100 100) (auction_id (GetBase auction_vesting)) \<noteq> []"
      "\<not> vq_released (last (GetVestingQueuesByAuctionId (ctx_vesting 100 100)
                               (auction_id (GetBase auction_vesting))))"
    by (simp_all add: vesting_example_defs example_defs)
  have nA: "fst (returned ?XA) = None" and fA: "status (GetBase (fst (snd (returned ?XA)))) = AuctionStatusFinished"
    by (simp_all add: AllocateVestingPayingCoin_def vesting_example_defs bank_defs example_defs)
  have nB: "fst (returned ?XB) = None" and fB: "status (GetBase (fst (snd (returned ?XB)))) = AuctionStatusVesting"
    by (simp_all add: AllocateVestingPayingCoin_def vesting_example_defs bank_defs example_defs)
  have rA: "?XA = Returns (returned ?XA)" and rB: "?XB = Returns (returned ?XB)"
    by (simp_all add: AllocateVestingPayingCoin_def Let_def)
  have "returned ?XA = (None, fst (snd (returned ?XA)), snd (snd (returned ?XA)))"
    using nA by (metis prod.collapse)
  with rA have okA: "?XA = Returns (None, fst (snd (returned ?XA)), snd (snd (returned ?XA)))"
    by simp
  have "returned ?XB = (None, fst (snd (returned ?XB)), snd (snd (returned ?XB)))"
    using nB by (metis prod.collapse)
  with rB have okB: "?XB = Returns (None, fst (snd (returned ?XB)), snd (snd (returned ?XB)))"
    by simp
  note tA = AllocateVestingPayingCoin_releases_due_entries [OF sA okA v pA]
  note tB = AllocateVestingPayingCoin_releases_due_entries [OF sB okB v pB]
  note qA = tA [THEN conjunct1]
  note cA = tA [THEN conjunct2, THEN conjunct2, THEN conjunct2, THEN conjunct1]
  note cB = tB [THEN conjunct2, THEN conjunct2, THEN conjunct2, THEN conjunct1]
  show ?thesis
    by (rule conjI [OF sA conjI [OF v conjI [OF nA conjI [OF qA conjI [OF cA conjI [OF fA
          conjI [OF nB conjI [OF cB fB]]]]]]]])
qed

end
